theory Spec2Isabelle
  imports Complex_Main "HOL-Library.Char_ord" "HOL-Library.List_Lexorder"
    "HOL-Library.Product_Lexorder" "HOL-Library.Multiset"
begin

section \<open>Python values\<close>

text \<open>
  The program of \<^verbatim>\<open>leetcodeprofile.py\<close> handles what \<^verbatim>\<open>response.json()\<close> returns and
  what it builds from it: \<^verbatim>\<open>None\<close>, booleans, integers, floats, strings, lists and
  dictionaries. A dictionary is an association list in insertion order; the keys of a
  Python dictionary are distinct. Integers are Python's unbounded integers. A float is a
  finite value, negative zero, an infinity or NaN (\<^verbatim>\<open>json\<close> reads the tokens \<^verbatim>\<open>NaN\<close>,
  \<^verbatim>\<open>Infinity\<close> and \<^verbatim>\<open>-Infinity\<close>); a finite value is a rational number, which every
  finite double is. The program does no arithmetic on floats: it tests, compares and
  stores them.
\<close>

datatype pyfloat = Finite rat | NegZero | PosInf | NegInf | NaN

datatype pyval = PNone | PBool bool | PInt int | PFloat pyfloat | PStr string
  | PList "pyval list" | PDict "(string \<times> pyval) list"

type_synonym pydict = "(string \<times> pyval) list"

text \<open>
  The exceptions the program can meet. \<^verbatim>\<open>APIError\<close> and \<^verbatim>\<open>ValidationError\<close> are its own
  classes and carry their message; \<^verbatim>\<open>AttributeError\<close> and \<^verbatim>\<open>TypeError\<close> are raised by the
  interpreter (a method looked up on a value that has none, operands of the wrong type).
\<close>

datatype exn = APIError string | ValidationError string | AttributeError | TypeError

text \<open>Sequencing of steps that may raise: the first exception ends the computation.\<close>

definition exn_bind :: "exn + 'a \<Rightarrow> ('a \<Rightarrow> exn + 'b) \<Rightarrow> exn + 'b" where
  "exn_bind m f = (case m of Inl e \<Rightarrow> Inl e | Inr v \<Rightarrow> f v)"

text \<open>
  Truth value of an object, as \<^verbatim>\<open>not x\<close> and \<^verbatim>\<open>if x\<close> test it. Of the floats only the two
  zeros are false.
\<close>

fun truthy :: "pyval \<Rightarrow> bool" where
  "truthy PNone = False"
| "truthy (PBool b) = b"
| "truthy (PInt i) = (i \<noteq> 0)"
| "truthy (PFloat f) = (f \<noteq> Finite 0 \<and> f \<noteq> NegZero)"
| "truthy (PStr s) = (s \<noteq> [])"
| "truthy (PList xs) = (xs \<noteq> [])"
| "truthy (PDict d) = (d \<noteq> [])"

text \<open>\<^verbatim>\<open>isinstance(x, str)\<close> and \<^verbatim>\<open>isinstance(x, list)\<close>.\<close>

fun isinstance_str :: "pyval \<Rightarrow> bool" where
  "isinstance_str (PStr s) = True"
| "isinstance_str _ = False"

fun isinstance_list :: "pyval \<Rightarrow> bool" where
  "isinstance_list (PList xs) = True"
| "isinstance_list _ = False"

text \<open>\<^verbatim>\<open>d.get(k, default)\<close> on a dictionary, and on any value: only a dictionary has \<^verbatim>\<open>get\<close>.\<close>

definition dict_get :: "pydict \<Rightarrow> string \<Rightarrow> pyval \<Rightarrow> pyval" where
  "dict_get d k dflt = (case map_of d k of None \<Rightarrow> dflt | Some v \<Rightarrow> v)"

fun py_get :: "pyval \<Rightarrow> string \<Rightarrow> pyval \<Rightarrow> exn + pyval" where
  "py_get (PDict d) k dflt = Inr (dict_get d k dflt)"
| "py_get _ k dflt = Inl AttributeError"

text \<open>\<^verbatim>\<open>d[k] = v\<close>: an existing key keeps its place, a new key goes to the end.\<close>

fun dict_set :: "pydict \<Rightarrow> string \<Rightarrow> pyval \<Rightarrow> pydict" where
  "dict_set [] k v = [(k, v)]"
| "dict_set ((k', v') # d) k v = (if k' = k then (k, v) # d else (k', v') # dict_set d k v)"

text \<open>
  \<^verbatim>\<open>sep.join(names)\<close>: every item has to be a string, otherwise \<^verbatim>\<open>TypeError\<close>.
\<close>

fun str_items :: "pyval list \<Rightarrow> exn + string list" where
  "str_items [] = Inr []"
| "str_items (PStr s # vs) = exn_bind (str_items vs) (\<lambda>ss. Inr (s # ss))"
| "str_items (_ # vs) = Inl TypeError"

fun join_strs :: "string \<Rightarrow> string list \<Rightarrow> string" where
  "join_strs sep [] = []"
| "join_strs sep [s] = s"
| "join_strs sep (s # t # ss) = s @ sep @ join_strs sep (t # ss)"

definition py_join :: "string \<Rightarrow> pyval list \<Rightarrow> exn + string" where
  "py_join sep vs = exn_bind (str_items vs) (\<lambda>ss. Inr (join_strs sep ss))"

subsection \<open>Comparison of values\<close>

text \<open>
  Numbers are the integers, the booleans (\<^verbatim>\<open>bool\<close> is a subclass of \<^verbatim>\<open>int\<close>, with values 0
  and 1) and the floats. Python compares an integer with a float by their exact values.
  A number other than NaN has a place on the line of the rationals with the two
  infinities at its ends, given here as a pair in lexicographic order: the first
  component is -1, 0 or 1 for minus infinity, a finite value and plus infinity, the
  second the finite value. NaN has no place: it is neither less than nor equal to any
  number.
\<close>

fun is_number :: "pyval \<Rightarrow> bool" where
  "is_number (PInt i) = True"
| "is_number (PBool b) = True"
| "is_number (PFloat f) = True"
| "is_number _ = False"

fun is_nan :: "pyval \<Rightarrow> bool" where
  "is_nan (PFloat NaN) = True"
| "is_nan _ = False"

fun num_of :: "pyval \<Rightarrow> int \<times> rat" where
  "num_of (PInt i) = (0, of_int i)"
| "num_of (PBool b) = (0, if b then 1 else 0)"
| "num_of (PFloat (Finite q)) = (0, q)"
| "num_of (PFloat NegZero) = (0, 0)"
| "num_of (PFloat PosInf) = (1, 0)"
| "num_of (PFloat NegInf) = (-1, 0)"
| "num_of _ = (0, 0)"

text \<open>
  The equality test that a comparison of two lists or two dictionaries applies to their
  items: the same object, or \<^verbatim>\<open>==\<close>. It never raises on these values. Numbers are equal by
  value, lists item by item, dictionaries when they have the same keys with equal values.
  \<^verbatim>\<open>json\<close> decodes every \<^verbatim>\<open>NaN\<close> token to one and the same object, so an item NaN passes
  this test against an item NaN, although \<^verbatim>\<open>NaN == NaN\<close> is false; against every other
  value NaN fails it.
\<close>

fun py_eq :: "pyval \<Rightarrow> pyval \<Rightarrow> bool" where
  "py_eq PNone PNone = True"
| "py_eq (PStr a) (PStr b) = (a = b)"
| "py_eq (PList []) (PList []) = True"
| "py_eq (PList (x # xs)) (PList (y # ys)) = (py_eq x y \<and> py_eq (PList xs) (PList ys))"
| "py_eq (PDict a) (PDict b) =
     (length a = length b \<and>
      (\<forall>p \<in> set a. case map_of b (fst p) of None \<Rightarrow> False | Some w \<Rightarrow> py_eq (snd p) w))"
| "py_eq a b =
     (is_number a \<and> is_number b
      \<and> (if is_nan a \<or> is_nan b then is_nan a \<and> is_nan b else num_of a = num_of b))"

text \<open>
  \<^verbatim>\<open>a < b\<close>, the only comparison \<^verbatim>\<open>sorted\<close> makes. Numbers compare by value, and a
  comparison with NaN is false; strings compare by code point, lists by their first
  differing item; every other pair raises \<^verbatim>\<open>TypeError\<close>, among them a string against a
  number.
\<close>

fun py_lt :: "pyval \<Rightarrow> pyval \<Rightarrow> exn + bool" where
  "py_lt (PStr a) (PStr b) = Inr (a < b)"
| "py_lt (PList []) (PList []) = Inr False"
| "py_lt (PList []) (PList (y # ys)) = Inr True"
| "py_lt (PList (x # xs)) (PList []) = Inr False"
| "py_lt (PList (x # xs)) (PList (y # ys)) =
     (if py_eq x y then py_lt (PList xs) (PList ys) else py_lt x y)"
| "py_lt a b =
     (if is_number a \<and> is_number b
      then Inr (\<not> is_nan a \<and> \<not> is_nan b \<and> num_of a < num_of b)
      else Inl TypeError)"

subsection \<open>The builtin \<^verbatim>\<open>sorted\<close>\<close>

text \<open>
  \<^verbatim>\<open>sorted(xs, key=f, reverse=r)\<close> computes the keys, sorts a copy of the list stably in
  ascending order with \<^verbatim>\<open><\<close> on the keys, and a comparison that raises ends the sort with
  that exception. With \<^verbatim>\<open>reverse=True\<close> the copy is reversed before and after the
  ascending sort, which keeps records with equal keys in their original order. The stable
  sort is written here as insertion from the right. Which pairs a sort compares is its own
  business, but every sort of two or more records compares each record with some other
  one until all are connected; so for keys that are numbers, strings, \<^verbatim>\<open>None\<close> or
  dictionaries, where a comparison raises or not by the kinds of its two operands alone,
  any sort raises on the same lists as this one.
\<close>

fun py_insort :: "('a \<Rightarrow> pyval) \<Rightarrow> 'a \<Rightarrow> 'a list \<Rightarrow> exn + 'a list" where
  "py_insort key x [] = Inr [x]"
| "py_insort key x (y # ys) =
     exn_bind (py_lt (key y) (key x))
       (\<lambda>lt. if lt then exn_bind (py_insort key x ys) (\<lambda>zs. Inr (y # zs))
              else Inr (x # y # ys))"

fun py_sort :: "('a \<Rightarrow> pyval) \<Rightarrow> 'a list \<Rightarrow> exn + 'a list" where
  "py_sort key [] = Inr []"
| "py_sort key (x # xs) = exn_bind (py_sort key xs) (py_insort key x)"

text \<open>
  When the keys of two or more records are numbers and one of them is NaN, \<^verbatim>\<open><\<close> does not
  order them, no comparison raises, and the list that \<^verbatim>\<open>sorted\<close> returns depends on the
  steps of the interpreter's merge sort, which are not modelled: it need not be in
  descending order and need not keep records with equal keys in their order. That list
  is the parameter \<open>arrange\<close>, of which nothing is assumed.
\<close>

definition unordered_keys :: "('a \<Rightarrow> pyval) \<Rightarrow> 'a list \<Rightarrow> bool" where
  "unordered_keys key xs \<longleftrightarrow>
     2 \<le> length xs \<and> (\<forall>x \<in> set xs. is_number (key x)) \<and> (\<exists>x \<in> set xs. is_nan (key x))"

definition py_sorted ::
  "(('a \<Rightarrow> pyval) \<Rightarrow> bool \<Rightarrow> 'a list \<Rightarrow> 'a list) \<Rightarrow> ('a \<Rightarrow> pyval) \<Rightarrow> bool \<Rightarrow> 'a list
     \<Rightarrow> exn + 'a list" where
  "py_sorted arrange key reverse xs =
     (if unordered_keys key xs then Inr (arrange key reverse xs)
      else if reverse then exn_bind (py_sort key (rev xs)) (\<lambda>ys. Inr (rev ys))
      else py_sort key xs)"

section \<open>The program\<close>

subsection \<open>\<^verbatim>\<open>validate_username\<close>\<close>

definition validate_username :: "pyval \<Rightarrow> exn + unit" where
  "validate_username username =
     (if \<not> truthy username \<or> \<not> isinstance_str username
      then Inl (ValidationError ''Username must be a non-empty string'')
      else Inr ())"

subsection \<open>\<^verbatim>\<open>LeetcodeWrapper\<close>\<close>

text \<open>
  What \<^verbatim>\<open>requests.get\<close>, \<^verbatim>\<open>raise_for_status\<close> and \<^verbatim>\<open>response.json\<close> can do for one URL:
  raise \<^verbatim>\<open>HTTPError\<close>, raise another \<^verbatim>\<open>RequestException\<close>, return a body that is not
  JSON, or return a decoded body. The network is a function from the URL to that outcome.
\<close>

datatype response = HTTPError string | RequestException string | NotJSON | Body pyval

type_synonym network = "string \<Rightarrow> response"

definition BASE_URL :: string where
  "BASE_URL = ''https://alfa-leetcode-api.onrender.com''"

text \<open>
  \<^verbatim>\<open>build_url\<close> with \<^verbatim>\<open>params=None\<close>, the only way the program calls it: the query string
  is never built.
\<close>

definition build_url :: "string \<Rightarrow> string \<Rightarrow> string" where
  "build_url base_url endpoint = base_url @ endpoint"

text \<open>The method \<^verbatim>\<open>_request\<close>, always called without \<^verbatim>\<open>params\<close>.\<close>

definition request :: "network \<Rightarrow> string \<Rightarrow> exn + pyval" where
  "request net endpoint =
     (case net (build_url BASE_URL endpoint) of
        HTTPError m \<Rightarrow> Inl (APIError (''HTTP error occurred: '' @ m))
      | RequestException m \<Rightarrow> Inl (APIError (''Request error occurred: '' @ m))
      | NotJSON \<Rightarrow> Inl (APIError ''Failed to parse JSON response'')
      | Body v \<Rightarrow> Inr v)"

definition get_profile :: "network \<Rightarrow> string \<Rightarrow> exn + pyval" where
  "get_profile net username = request net (''/'' @ username)"

definition get_badges :: "network \<Rightarrow> string \<Rightarrow> exn + pyval" where
  "get_badges net username = request net (''/'' @ username @ ''/badges'')"

definition get_solved :: "network \<Rightarrow> string \<Rightarrow> exn + pyval" where
  "get_solved net username = request net (''/'' @ username @ ''/solved'')"

subsection \<open>\<^verbatim>\<open>fetch_user_data\<close>\<close>

text \<open>The list comprehension over the badges: each entry's \<^verbatim>\<open>get('displayName', 'N/A')\<close>.\<close>

fun badge_names :: "pyval list \<Rightarrow> exn + pyval list" where
  "badge_names [] = Inr []"
| "badge_names (badge # bs) =
     exn_bind (py_get badge ''displayName'' (PStr ''N/A''))
       (\<lambda>n. exn_bind (badge_names bs) (\<lambda>ns. Inr (n # ns)))"

text \<open>The body of the \<^verbatim>\<open>try\<close> block.\<close>

definition fetch_body :: "network \<Rightarrow> string \<Rightarrow> exn + pydict" where
  "fetch_body net username =
     exn_bind (get_profile net username) (\<lambda>profile.
     exn_bind (get_badges net username) (\<lambda>badges.
     exn_bind (get_solved net username) (\<lambda>solved_problems.
     exn_bind (py_get profile ''reputation'' (PStr ''N/A'')) (\<lambda>rating.
     exn_bind (py_get solved_problems ''solvedProblem'' (PStr ''N/A'')) (\<lambda>solved.
     exn_bind (py_get profile ''ranking'' (PStr ''N/A'')) (\<lambda>ranking.
       let user_data =
             [(''Username'', PStr username),
              (''Rating'', rating),
              (''Problems Solved'', solved),
              (''Badges'', PStr ''N/A''),
              (''Ranking'', ranking)]
       in if truthy badges
          then exn_bind (py_get badges ''badges'' PNone) (\<lambda>bl.
                 case bl of
                   PList bs \<Rightarrow>
                     exn_bind (badge_names bs) (\<lambda>names.
                     exn_bind (py_join '', '' names) (\<lambda>joined.
                       Inr (dict_set user_data ''Badges'' (PStr joined))))
                 | _ \<Rightarrow> Inr user_data)
          else Inr user_data))))))"

text \<open>
  The constructor of \<^verbatim>\<open>LeetcodeWrapper\<close> validates the username outside the \<^verbatim>\<open>try\<close>
  block; the \<^verbatim>\<open>except\<close> clause rewraps an \<^verbatim>\<open>APIError\<close> and lets everything else through.
\<close>

definition fetch_user_data :: "network \<Rightarrow> string \<Rightarrow> exn + pydict" where
  "fetch_user_data net username =
     exn_bind (validate_username (PStr username)) (\<lambda>_.
       case fetch_body net username of
         Inl (APIError e) \<Rightarrow>
           Inl (APIError (''Failed to fetch data for '' @ username @ '': '' @ e))
       | Inl other \<Rightarrow> Inl other
       | Inr user_data \<Rightarrow> Inr user_data)"

subsection \<open>\<^verbatim>\<open>rank_users\<close>\<close>

definition rating_key :: "pydict \<Rightarrow> pyval" where
  "rating_key x = dict_get x ''Rating'' (PInt 0)"

definition solved_key :: "pydict \<Rightarrow> pyval" where
  "solved_key x = dict_get x ''Problems Solved'' (PInt 0)"

text \<open>The parameter \<open>arrange\<close> is that of \<^verbatim>\<open>sorted\<close>.\<close>

definition rank_users ::
  "((pydict \<Rightarrow> pyval) \<Rightarrow> bool \<Rightarrow> pydict list \<Rightarrow> pydict list) \<Rightarrow> pydict list
     \<Rightarrow> exn + (pydict list \<times> pydict list)" where
  "rank_users arrange data =
     exn_bind (py_sorted arrange rating_key True data) (\<lambda>sorted_by_rating.
     exn_bind (py_sorted arrange solved_key True data) (\<lambda>sorted_by_solved.
       Inr (sorted_by_rating, sorted_by_solved)))"

text \<open>
  The same function over a store of list objects, an address being an index into the
  store: \<^verbatim>\<open>sorted\<close> reads the list it is given and allocates a new list for its result.
  The records in the new list are the records of the old one; \<^verbatim>\<open>rank_users\<close> reads their
  fields and writes to none of them.
\<close>

type_synonym store = "pydict list list"

definition sorted_store ::
  "((pydict \<Rightarrow> pyval) \<Rightarrow> bool \<Rightarrow> pydict list \<Rightarrow> pydict list) \<Rightarrow> (pydict \<Rightarrow> pyval) \<Rightarrow> bool
     \<Rightarrow> store \<Rightarrow> nat \<Rightarrow> store \<times> (exn + nat)" where
  "sorted_store arrange key reverse h a =
     (case py_sorted arrange key reverse (h ! a) of
        Inl e \<Rightarrow> (h, Inl e)
      | Inr ys \<Rightarrow> (h @ [ys], Inr (length h)))"

definition rank_users_store ::
  "((pydict \<Rightarrow> pyval) \<Rightarrow> bool \<Rightarrow> pydict list \<Rightarrow> pydict list) \<Rightarrow> store \<Rightarrow> nat
     \<Rightarrow> store \<times> (exn + (nat \<times> nat))" where
  "rank_users_store arrange h data =
     (case sorted_store arrange rating_key True h data of
        (h1, Inl e) \<Rightarrow> (h1, Inl e)
      | (h1, Inr sorted_by_rating) \<Rightarrow>
          (case sorted_store arrange solved_key True h1 data of
             (h2, Inl e) \<Rightarrow> (h2, Inl e)
           | (h2, Inr sorted_by_solved) \<Rightarrow> (h2, Inr (sorted_by_rating, sorted_by_solved))))"

subsection \<open>The batch loop of \<^verbatim>\<open>main\<close>\<close>

text \<open>
  Every username is submitted to the executor, and the futures are read in the order of
  submission. A future that raised \<^verbatim>\<open>APIError\<close> or \<^verbatim>\<open>ValidationError\<close> prints one line;
  any other exception leaves the loop and \<^verbatim>\<open>main\<close>. The state is the list \<^verbatim>\<open>results\<close>
  and the lines printed so far. The tasks share no state, so the outcome of each is
  \<^verbatim>\<open>fetch_user_data\<close> on its username.
\<close>

text \<open>The two lines the loop prints, \<^verbatim>\<open>{futures[future]}\<close> being the username of the task.\<close>

definition api_error_line :: "string \<Rightarrow> string \<Rightarrow> string" where
  "api_error_line username e = ''Error fetching data for '' @ username @ '': '' @ e"

definition validation_error_line :: "string \<Rightarrow> string \<Rightarrow> string" where
  "validation_error_line username e = ''Validation error for '' @ username @ '': '' @ e"

fun collect ::
  "(string \<times> (exn + pydict)) list \<Rightarrow> pydict list \<times> string list
     \<Rightarrow> exn + (pydict list \<times> string list)" where
  "collect [] st = Inr st"
| "collect ((username, Inr user_data) # fs) (results, printed) =
     collect fs (results @ [user_data], printed)"
| "collect ((username, Inl (APIError e)) # fs) (results, printed) =
     collect fs (results, printed @ [api_error_line username e])"
| "collect ((username, Inl (ValidationError e)) # fs) (results, printed) =
     collect fs (results, printed @ [validation_error_line username e])"
| "collect ((username, Inl other) # fs) (results, printed) = Inl other"

definition submit_all :: "network \<Rightarrow> string list \<Rightarrow> (string \<times> (exn + pydict)) list" where
  "submit_all net usernames = map (\<lambda>username. (username, fetch_user_data net username)) usernames"

definition fetch_all :: "network \<Rightarrow> string list \<Rightarrow> exn + (pydict list \<times> string list)" where
  "fetch_all net usernames = collect (submit_all net usernames) ([], [])"

section \<open>Scenarios\<close>

text \<open>
  A network given by a table of URLs; a URL outside the table answers 404. The table
  below serves a handful of users: \<open>carol\<close> and \<open>gina\<close> have all three resources (one of
  \<open>gina\<close>'s badges has no display name), \<open>dave\<close>'s badges request times out, \<open>ivan\<close>'s
  solved request fails, \<open>frank\<close> does not exist for the API, which answers with an error
  object, one of \<open>erin\<close>'s badges has \<^verbatim>\<open>null\<close> for its display name, \<open>hugo\<close>'s profile
  body is \<^verbatim>\<open>null\<close>, and \<open>judy\<close> has \<open>carol\<close>'s numbers and a single badge, whose name
  has a comma in it.
\<close>

definition net_of :: "(string \<times> response) list \<Rightarrow> network" where
  "net_of table url =
     (case map_of table url of None \<Rightarrow> HTTPError ''404 Client Error: Not Found'' | Some r \<Rightarrow> r)"

definition no_such_user :: pyval where
  "no_such_user =
     PDict [(''errors'', PList [PDict [(''message'', PStr ''That user does not exist.'')]])]"

definition demo_net :: network where
  "demo_net = net_of
     [(''https://alfa-leetcode-api.onrender.com/carol'',
         Body (PDict [(''reputation'', PInt 1500), (''ranking'', PInt 200)])),
      (''https://alfa-leetcode-api.onrender.com/carol/badges'',
         Body (PDict [(''badges'', PList [PDict [(''displayName'', PStr ''Guardian'')],
                                           PDict [(''displayName'', PStr ''Annual Badge'')]])])),
      (''https://alfa-leetcode-api.onrender.com/carol/solved'',
         Body (PDict [(''solvedProblem'', PInt 340)])),
      (''https://alfa-leetcode-api.onrender.com/dave'',
         Body (PDict [(''reputation'', PInt 70), (''ranking'', PInt 9000)])),
      (''https://alfa-leetcode-api.onrender.com/dave/badges'',
         RequestException ''Read timed out.''),
      (''https://alfa-leetcode-api.onrender.com/dave/solved'',
         Body (PDict [(''solvedProblem'', PInt 12)])),
      (''https://alfa-leetcode-api.onrender.com/erin'',
         Body (PDict [(''reputation'', PInt 10), (''ranking'', PInt 77000)])),
      (''https://alfa-leetcode-api.onrender.com/erin/badges'',
         Body (PDict [(''badges'', PList [PDict [(''displayName'', PNone)]])])),
      (''https://alfa-leetcode-api.onrender.com/erin/solved'',
         Body (PDict [(''solvedProblem'', PInt 3)])),
      (''https://alfa-leetcode-api.onrender.com/frank'', Body no_such_user),
      (''https://alfa-leetcode-api.onrender.com/frank/badges'', Body no_such_user),
      (''https://alfa-leetcode-api.onrender.com/frank/solved'', Body no_such_user),
      (''https://alfa-leetcode-api.onrender.com/gina'',
         Body (PDict [(''reputation'', PInt 1500), (''ranking'', PInt 31)])),
      (''https://alfa-leetcode-api.onrender.com/gina/badges'',
         Body (PDict [(''badges'', PList [PDict [(''displayName'', PStr ''Guardian'')],
                                           PDict [(''icon'', PStr ''knight.png'')]])])),
      (''https://alfa-leetcode-api.onrender.com/gina/solved'',
         Body (PDict [(''solvedProblem'', PInt 2)])),
      (''https://alfa-leetcode-api.onrender.com/hugo'', Body PNone),
      (''https://alfa-leetcode-api.onrender.com/hugo/badges'', Body (PDict [(''badges'', PList [])])),
      (''https://alfa-leetcode-api.onrender.com/hugo/solved'',
         Body (PDict [(''solvedProblem'', PInt 1)])),
      (''https://alfa-leetcode-api.onrender.com/judy'',
         Body (PDict [(''reputation'', PInt 1500), (''ranking'', PInt 200)])),
      (''https://alfa-leetcode-api.onrender.com/judy/badges'',
         Body (PDict [(''badges'', PList [PDict [(''displayName'', PStr ''Guardian, Annual Badge'')]])])),
      (''https://alfa-leetcode-api.onrender.com/judy/solved'',
         Body (PDict [(''solvedProblem'', PInt 340)])),
      (''https://alfa-leetcode-api.onrender.com/ivan'',
         Body (PDict [(''reputation'', PInt 5), (''ranking'', PInt 123456)])),
      (''https://alfa-leetcode-api.onrender.com/ivan/badges'', Body (PDict [(''badges'', PList [])])),
      (''https://alfa-leetcode-api.onrender.com/ivan/solved'',
         HTTPError ''500 Server Error: Internal Server Error'')]"

definition carol_record :: pydict where
  "carol_record =
     [(''Username'', PStr ''carol''), (''Rating'', PInt 1500), (''Problems Solved'', PInt 340),
      (''Badges'', PStr ''Guardian, Annual Badge''), (''Ranking'', PInt 200)]"

definition judy_record :: pydict where
  "judy_record =
     [(''Username'', PStr ''judy''), (''Rating'', PInt 1500), (''Problems Solved'', PInt 340),
      (''Badges'', PStr ''Guardian, Annual Badge''), (''Ranking'', PInt 200)]"

definition frank_record :: pydict where
  "frank_record =
     [(''Username'', PStr ''frank''), (''Rating'', PStr ''N/A''),
      (''Problems Solved'', PStr ''N/A''), (''Badges'', PStr ''N/A''), (''Ranking'', PStr ''N/A'')]"

definition gina_record :: pydict where
  "gina_record =
     [(''Username'', PStr ''gina''), (''Rating'', PInt 1500), (''Problems Solved'', PInt 2),
      (''Badges'', PStr ''Guardian, N/A''), (''Ranking'', PInt 31)]"

text \<open>A batch of four records with ties in both ranking fields, and its two rankings.\<close>

definition rec_of :: "string \<Rightarrow> pyval \<Rightarrow> pyval \<Rightarrow> pydict" where
  "rec_of username rating solved =
     [(''Username'', PStr username), (''Rating'', rating), (''Problems Solved'', solved),
      (''Badges'', PStr ''N/A''), (''Ranking'', PStr ''N/A'')]"

definition demo_data :: "pydict list" where
  "demo_data = [rec_of ''ann'' (PInt 100) (PInt 7), rec_of ''bob'' (PInt 300) (PInt 7),
                rec_of ''cy'' (PInt 100) (PInt 9), rec_of ''dee'' (PFloat (Finite 300)) (PInt 2)]"

definition demo_by_rating :: "pydict list" where
  "demo_by_rating = [rec_of ''bob'' (PInt 300) (PInt 7), rec_of ''dee'' (PFloat (Finite 300)) (PInt 2),
                     rec_of ''ann'' (PInt 100) (PInt 7), rec_of ''cy'' (PInt 100) (PInt 9)]"

definition demo_by_solved :: "pydict list" where
  "demo_by_solved = [rec_of ''cy'' (PInt 100) (PInt 9), rec_of ''ann'' (PInt 100) (PInt 7),
                     rec_of ''bob'' (PInt 300) (PInt 7), rec_of ''dee'' (PFloat (Finite 300)) (PInt 2)]"

section \<open>Keys that \<^verbatim>\<open>sorted\<close> can order\<close>

text \<open>
  A list of records is sortable by a key when it has at most one record, so that nothing
  is compared, or when all its keys are numbers and none is NaN, or all are strings.
\<close>

fun str_of :: "pyval \<Rightarrow> string" where
  "str_of (PStr s) = s"
| "str_of _ = []"

definition sortable_keys :: "('a \<Rightarrow> pyval) \<Rightarrow> 'a list \<Rightarrow> bool" where
  "sortable_keys key xs \<longleftrightarrow>
     length xs \<le> 1 \<or> (\<forall>x \<in> set xs. is_number (key x) \<and> \<not> is_nan (key x))
     \<or> (\<forall>x \<in> set xs. isinstance_str (key x))"

text \<open>
  A stand-in for the parameter of \<^verbatim>\<open>sorted\<close> in the examples, none of which has a NaN
  key, so that it is never consulted.
\<close>

definition as_given :: "('a \<Rightarrow> pyval) \<Rightarrow> bool \<Rightarrow> 'a list \<Rightarrow> 'a list" where
  "as_given key reverse xs = xs"

section \<open>The identity validator\<close>

text \<open>
  C3, as the code has it: \<^verbatim>\<open>validate_username\<close> raises \<^verbatim>\<open>ValidationError\<close> exactly when its
  argument is the empty string or is not a string, and returns, with no effect, exactly on
  the non-empty strings. A string of white space is not empty, so it is accepted.
\<close>

theorem validate_username_fails_iff:
  "(validate_username v = Inl (ValidationError ''Username must be a non-empty string'')
      \<longleftrightarrow> v = PStr [] \<or> \<not> isinstance_str v)
   \<and> (validate_username v = Inr () \<longleftrightarrow> (\<exists>s. v = PStr s \<and> s \<noteq> []))"
  by (cases v) (auto simp: validate_username_def)

theorem validate_username_fails_iff_witness:
  "validate_username (PInt 7) = Inl (ValidationError ''Username must be a non-empty string'')
   \<and> validate_username (PStr ''carol'') = Inr ()"
  using validate_username_fails_iff[of "PInt 7"] validate_username_fails_iff[of "PStr ''carol''"]
  by simp

text \<open>The username made of one blank and one tab passes the validator.\<close>

theorem validate_username_whitespace_accepted:
  "validate_username (PStr [CHR '' '', CHR 0x09]) = Inr ()"
  by (simp add: validate_username_def)

section \<open>The profile aggregator\<close>

subsection \<open>Lookups and the scenarios\<close>

lemma request_raises_APIError: "request net ep = Inl x \<Longrightarrow> \<exists>m. x = APIError m"
  by (auto simp: request_def split: response.splits)

lemma valid_nonempty: "username \<noteq> [] \<Longrightarrow> validate_username (PStr username) = Inr ()"
  by (simp add: validate_username_def)

lemma fetch_user_data_valid:
  "username \<noteq> [] \<Longrightarrow> fetch_user_data net username =
     (case fetch_body net username of
        Inl (APIError e) \<Rightarrow> Inl (APIError (''Failed to fetch data for '' @ username @ '': '' @ e))
      | Inl other \<Rightarrow> Inl other
      | Inr user_data \<Rightarrow> Inr user_data)"
  by (simp add: fetch_user_data_def valid_nonempty exn_bind_def)

lemmas lookup_simps = demo_net_def net_of_def no_such_user_def get_profile_def get_badges_def
  get_solved_def request_def build_url_def BASE_URL_def

lemmas demo_simps = lookup_simps fetch_user_data_def fetch_body_def validate_username_def
  exn_bind_def py_join_def dict_get_def

lemma carol_fetch: "fetch_user_data demo_net ''carol'' = Inr carol_record"
  by (simp add: demo_simps carol_record_def)

lemma judy_fetch: "fetch_user_data demo_net ''judy'' = Inr judy_record"
  by (simp add: demo_simps judy_record_def)

lemma frank_fetch: "fetch_user_data demo_net ''frank'' = Inr frank_record"
  by (simp add: demo_simps frank_record_def)

lemma gina_fetch: "fetch_user_data demo_net ''gina'' = Inr gina_record"
  by (simp add: demo_simps gina_record_def)

lemma erin_fetch: "fetch_user_data demo_net ''erin'' = Inl TypeError"
  by (simp add: demo_simps)

lemma hugo_fetch: "fetch_user_data demo_net ''hugo'' = Inl AttributeError"
  by (simp add: demo_simps)

lemma dave_fetch:
  "fetch_user_data demo_net ''dave'' =
     Inl (APIError ''Failed to fetch data for dave: Request error occurred: Read timed out.'')"
  by (simp add: demo_simps)

subsection \<open>The record\<close>

lemma badge_names_dicts:
  "badge_names (map PDict ds) = Inr (map (\<lambda>d. dict_get d ''displayName'' (PStr ''N/A'')) ds)"
  by (induction ds) (auto simp: exn_bind_def)

lemma str_items_display_names:
  assumes "\<forall>d \<in> set ds. case map_of d ''displayName'' of None \<Rightarrow> True | Some n \<Rightarrow> isinstance_str n"
  shows "str_items (map (\<lambda>d. dict_get d ''displayName'' (PStr ''N/A'')) ds)
         = Inr (map (\<lambda>d. case map_of d ''displayName'' of Some (PStr n) \<Rightarrow> n | _ \<Rightarrow> ''N/A'') ds)"
  using assms
proof (induction ds)
  case Nil
  then show ?case by simp
next
  case (Cons d ds)
  then show ?case
    by (cases "map_of d ''displayName''")
       (auto simp: dict_get_def exn_bind_def split: pyval.splits)
qed

lemma fetch_body_badge_list:
  assumes "get_profile net username = Inr (PDict p)"
    and "get_solved net username = Inr (PDict s)"
    and "get_badges net username = Inr (PDict b)"
    and "map_of b ''badges'' = Some (PList (map PDict ds))"
    and "\<forall>d \<in> set ds. case map_of d ''displayName'' of None \<Rightarrow> True | Some n \<Rightarrow> isinstance_str n"
  shows "fetch_body net username =
     Inr [(''Username'', PStr username),
          (''Rating'', dict_get p ''reputation'' (PStr ''N/A'')),
          (''Problems Solved'', dict_get s ''solvedProblem'' (PStr ''N/A'')),
          (''Badges'', PStr (join_strs '', ''
              (map (\<lambda>d. case map_of d ''displayName'' of Some (PStr n) \<Rightarrow> n | _ \<Rightarrow> ''N/A'') ds))),
          (''Ranking'', dict_get p ''ranking'' (PStr ''N/A''))]"
proof -
  from assms(4) have "b \<noteq> []" by auto
  moreover from assms(4) have "dict_get b ''badges'' PNone = PList (map PDict ds)"
    by (simp add: dict_get_def)
  ultimately show ?thesis
    using assms(1-3) str_items_display_names[OF assms(5)]
    by (simp add: fetch_body_def exn_bind_def badge_names_dicts py_join_def)
qed

lemma fetch_body_no_badge_list:
  assumes "get_profile net username = Inr (PDict p)"
    and "get_solved net username = Inr (PDict s)"
    and "get_badges net username = Inr badges"
    and "\<not> truthy badges \<or> (\<exists>b. badges = PDict b \<and> \<not> isinstance_list (dict_get b ''badges'' PNone))"
  shows "fetch_body net username =
     Inr [(''Username'', PStr username),
          (''Rating'', dict_get p ''reputation'' (PStr ''N/A'')),
          (''Problems Solved'', dict_get s ''solvedProblem'' (PStr ''N/A'')),
          (''Badges'', PStr ''N/A''),
          (''Ranking'', dict_get p ''ranking'' (PStr ''N/A''))]"
proof (cases "truthy badges")
  case False
  then show ?thesis
    using assms(1-3) by (simp add: fetch_body_def exn_bind_def)
next
  case True
  with assms(4) obtain b where b: "badges = PDict b"
    and nl: "\<not> isinstance_list (dict_get b ''badges'' PNone)"
    by auto
  from nl show ?thesis
    using assms(1-3) True unfolding b
    by (cases "dict_get b ''badges'' PNone") (simp_all add: fetch_body_def exn_bind_def)
qed

text \<open>
  C10: a record that \<^verbatim>\<open>fetch_user_data\<close> returns has exactly the five fields \<open>Username\<close>,
  \<open>Rating\<close>, \<open>Problems Solved\<close>, \<open>Badges\<close> and \<open>Ranking\<close>, in this order, and its
  \<open>Username\<close> is the username it was called with, unchanged.
\<close>

theorem fetch_user_data_fields:
  assumes "fetch_user_data net username = Inr user_data"
  shows "map fst user_data = [''Username'', ''Rating'', ''Problems Solved'', ''Badges'', ''Ranking'']
         \<and> map_of user_data ''Username'' = Some (PStr username)"
proof -
  from assms have "fetch_body net username = Inr user_data"
    by (auto simp: fetch_user_data_def exn_bind_def split: sum.splits exn.splits)
  then show ?thesis
    by (auto simp: fetch_body_def exn_bind_def Let_def split: sum.splits if_splits pyval.splits)
qed

theorem fetch_user_data_fields_witness:
  "fetch_user_data demo_net ''gina'' = Inr gina_record
   \<and> map fst gina_record = [''Username'', ''Rating'', ''Problems Solved'', ''Badges'', ''Ranking'']
   \<and> map_of gina_record ''Username'' = Some (PStr ''gina'')"
  using fetch_user_data_fields[OF gina_fetch] gina_fetch by simp

text \<open>
  C7, as the code has it: for a non-empty username whose three lookups return objects,
  with \<open>reputation\<close> 1500 and \<open>ranking\<close> 200 in the profile, \<open>solvedProblem\<close> 340 in the
  solved count, and a \<open>badges\<close> list of two entries named \<open>Guardian\<close> and
  \<open>Annual Badge\<close>, \<^verbatim>\<open>fetch_user_data\<close> returns the record with \<open>Rating\<close> 1500, \<open>Ranking\<close>
  200, \<open>Problems Solved\<close> 340 and, in \<open>Badges\<close>, the one string
  \<open>Guardian, Annual Badge\<close>: the display names in the order of the entries, joined by a
  comma and a blank, not a sequence of names. In general, when every badge entry is an
  object whose display name is absent or a string, \<open>Badges\<close> is the string that joins one
  name per entry, and an entry without a display name contributes \<open>N/A\<close> instead of
  being dropped.
\<close>

theorem fetch_user_data_scenario:
  "(username \<noteq> []
      \<and> get_profile net username = Inr (PDict p)
      \<and> map_of p ''reputation'' = Some (PInt 1500) \<and> map_of p ''ranking'' = Some (PInt 200)
      \<and> get_solved net username = Inr (PDict s)
      \<and> map_of s ''solvedProblem'' = Some (PInt 340)
      \<and> get_badges net username = Inr (PDict b)
      \<and> map_of b ''badges'' = Some (PList [PDict b1, PDict b2])
      \<and> map_of b1 ''displayName'' = Some (PStr ''Guardian'')
      \<and> map_of b2 ''displayName'' = Some (PStr ''Annual Badge'')
    \<longrightarrow> fetch_user_data net username =
          Inr [(''Username'', PStr username), (''Rating'', PInt 1500),
               (''Problems Solved'', PInt 340), (''Badges'', PStr ''Guardian, Annual Badge''),
               (''Ranking'', PInt 200)])
   \<and> (username \<noteq> []
      \<and> get_profile net username = Inr (PDict p)
      \<and> get_solved net username = Inr (PDict s)
      \<and> get_badges net username = Inr (PDict b)
      \<and> map_of b ''badges'' = Some (PList (map PDict ds))
      \<and> (\<forall>d \<in> set ds. case map_of d ''displayName'' of None \<Rightarrow> True | Some n \<Rightarrow> isinstance_str n)
    \<longrightarrow> (\<exists>user_data. fetch_user_data net username = Inr user_data
          \<and> map_of user_data ''Badges'' = Some (PStr (join_strs '', ''
              (map (\<lambda>d. case map_of d ''displayName'' of Some (PStr n) \<Rightarrow> n | _ \<Rightarrow> ''N/A'') ds)))))"
proof (intro conjI impI)
  assume h: "username \<noteq> []
      \<and> get_profile net username = Inr (PDict p)
      \<and> map_of p ''reputation'' = Some (PInt 1500) \<and> map_of p ''ranking'' = Some (PInt 200)
      \<and> get_solved net username = Inr (PDict s)
      \<and> map_of s ''solvedProblem'' = Some (PInt 340)
      \<and> get_badges net username = Inr (PDict b)
      \<and> map_of b ''badges'' = Some (PList [PDict b1, PDict b2])
      \<and> map_of b1 ''displayName'' = Some (PStr ''Guardian'')
      \<and> map_of b2 ''displayName'' = Some (PStr ''Annual Badge'')"
  then have "map_of b ''badges'' = Some (PList (map PDict [b1, b2]))"
    and "\<forall>d \<in> set [b1, b2]. case map_of d ''displayName'' of None \<Rightarrow> True | Some n \<Rightarrow> isinstance_str n"
    by simp_all
  from fetch_body_badge_list[OF _ _ _ this] h
  show "fetch_user_data net username =
          Inr [(''Username'', PStr username), (''Rating'', PInt 1500),
               (''Problems Solved'', PInt 340), (''Badges'', PStr ''Guardian, Annual Badge''),
               (''Ranking'', PInt 200)]"
    by (simp add: fetch_user_data_valid dict_get_def)
next
  assume h: "username \<noteq> []
      \<and> get_profile net username = Inr (PDict p)
      \<and> get_solved net username = Inr (PDict s)
      \<and> get_badges net username = Inr (PDict b)
      \<and> map_of b ''badges'' = Some (PList (map PDict ds))
      \<and> (\<forall>d \<in> set ds. case map_of d ''displayName'' of None \<Rightarrow> True | Some n \<Rightarrow> isinstance_str n)"
  then have "get_profile net username = Inr (PDict p)"
    and "get_solved net username = Inr (PDict s)"
    and "get_badges net username = Inr (PDict b)"
    and "map_of b ''badges'' = Some (PList (map PDict ds))"
    and "\<forall>d \<in> set ds. case map_of d ''displayName'' of None \<Rightarrow> True | Some n \<Rightarrow> isinstance_str n"
    by blast+
  from fetch_body_badge_list[OF this] h
  show "\<exists>user_data. fetch_user_data net username = Inr user_data
          \<and> map_of user_data ''Badges'' = Some (PStr (join_strs '', ''
              (map (\<lambda>d. case map_of d ''displayName'' of Some (PStr n) \<Rightarrow> n | _ \<Rightarrow> ''N/A'') ds)))"
    by (simp add: fetch_user_data_valid)
qed

text \<open>
  The scenario on the table network: \<open>carol\<close>'s record, and \<open>gina\<close>'s, whose second badge
  has no display name.
\<close>

theorem fetch_user_data_scenario_witness:
  "fetch_user_data demo_net ''carol'' =
     Inr [(''Username'', PStr ''carol''), (''Rating'', PInt 1500),
          (''Problems Solved'', PInt 340), (''Badges'', PStr ''Guardian, Annual Badge''),
          (''Ranking'', PInt 200)]
   \<and> (\<exists>user_data. fetch_user_data demo_net ''gina'' = Inr user_data
        \<and> map_of user_data ''Badges'' = Some (PStr ''Guardian, N/A''))"
proof -
  have carol: "''carol'' \<noteq> []
      \<and> get_profile demo_net ''carol'' = Inr (PDict [(''reputation'', PInt 1500), (''ranking'', PInt 200)])
      \<and> map_of [(''reputation'', PInt 1500), (''ranking'', PInt 200)] ''reputation'' = Some (PInt 1500)
      \<and> map_of [(''reputation'', PInt 1500), (''ranking'', PInt 200)] ''ranking'' = Some (PInt 200)
      \<and> get_solved demo_net ''carol'' = Inr (PDict [(''solvedProblem'', PInt 340)])
      \<and> map_of [(''solvedProblem'', PInt 340)] ''solvedProblem'' = Some (PInt 340)
      \<and> get_badges demo_net ''carol'' = Inr (PDict [(''badges'',
            PList [PDict [(''displayName'', PStr ''Guardian'')],
                   PDict [(''displayName'', PStr ''Annual Badge'')]])])
      \<and> map_of [(''badges'', PList [PDict [(''displayName'', PStr ''Guardian'')],
                   PDict [(''displayName'', PStr ''Annual Badge'')]])] ''badges''
          = Some (PList [PDict [(''displayName'', PStr ''Guardian'')],
                         PDict [(''displayName'', PStr ''Annual Badge'')]])
      \<and> map_of [(''displayName'', PStr ''Guardian'')] ''displayName'' = Some (PStr ''Guardian'')
      \<and> map_of [(''displayName'', PStr ''Annual Badge'')] ''displayName''
          = Some (PStr ''Annual Badge'')"
    by (simp add: lookup_simps)
  have gina: "''gina'' \<noteq> []
      \<and> get_profile demo_net ''gina'' = Inr (PDict [(''reputation'', PInt 1500), (''ranking'', PInt 31)])
      \<and> get_solved demo_net ''gina'' = Inr (PDict [(''solvedProblem'', PInt 2)])
      \<and> get_badges demo_net ''gina'' = Inr (PDict [(''badges'',
            PList [PDict [(''displayName'', PStr ''Guardian'')],
                   PDict [(''icon'', PStr ''knight.png'')]])])
      \<and> map_of [(''badges'', PList [PDict [(''displayName'', PStr ''Guardian'')],
                   PDict [(''icon'', PStr ''knight.png'')]])] ''badges''
          = Some (PList (map PDict [[(''displayName'', PStr ''Guardian'')],
                                    [(''icon'', PStr ''knight.png'')]]))
      \<and> (\<forall>d \<in> set [[(''displayName'', PStr ''Guardian'')], [(''icon'', PStr ''knight.png'')]].
            case map_of d ''displayName'' of None \<Rightarrow> True | Some n \<Rightarrow> isinstance_str n)"
    by (simp add: lookup_simps)
  from fetch_user_data_scenario[of "''carol''" demo_net
        "[(''reputation'', PInt 1500), (''ranking'', PInt 200)]"
        "[(''solvedProblem'', PInt 340)]"
        "[(''badges'', PList [PDict [(''displayName'', PStr ''Guardian'')],
                              PDict [(''displayName'', PStr ''Annual Badge'')]])]"
        "[(''displayName'', PStr ''Guardian'')]" "[(''displayName'', PStr ''Annual Badge'')]"]
      carol
  have c: "fetch_user_data demo_net ''carol'' =
     Inr [(''Username'', PStr ''carol''), (''Rating'', PInt 1500),
          (''Problems Solved'', PInt 340), (''Badges'', PStr ''Guardian, Annual Badge''),
          (''Ranking'', PInt 200)]"
    by blast
  from fetch_user_data_scenario[of "''gina''" demo_net
        "[(''reputation'', PInt 1500), (''ranking'', PInt 31)]"
        "[(''solvedProblem'', PInt 2)]"
        "[(''badges'', PList [PDict [(''displayName'', PStr ''Guardian'')],
                              PDict [(''icon'', PStr ''knight.png'')]])]"
        _ _ "[[(''displayName'', PStr ''Guardian'')], [(''icon'', PStr ''knight.png'')]]"]
      gina
  have "\<exists>user_data. fetch_user_data demo_net ''gina'' = Inr user_data
        \<and> map_of user_data ''Badges'' = Some (PStr (join_strs '', ''
              (map (\<lambda>d. case map_of d ''displayName'' of Some (PStr n) \<Rightarrow> n | _ \<Rightarrow> ''N/A'')
                 [[(''displayName'', PStr ''Guardian'')], [(''icon'', PStr ''knight.png'')]])))"
    by blast
  then have "\<exists>user_data. fetch_user_data demo_net ''gina'' = Inr user_data
        \<and> map_of user_data ''Badges'' = Some (PStr ''Guardian, N/A'')"
    by simp
  with c show ?thesis by blast
qed

text \<open>
  \<open>carol\<close>'s record holds her two badge names as one string, not as the list of the two
  names; \<open>judy\<close>'s single badge, named \<open>Guardian, Annual Badge\<close>, gives the same \<open>Badges\<close>.
\<close>

theorem fetch_user_data_badges_joined:
  "fetch_user_data demo_net ''carol'' = Inr carol_record
   \<and> map_of carol_record ''Badges'' = Some (PStr ''Guardian, Annual Badge'')
   \<and> map_of carol_record ''Badges'' \<noteq> Some (PList [PStr ''Guardian'', PStr ''Annual Badge''])
   \<and> fetch_user_data demo_net ''judy'' = Inr judy_record
   \<and> map_of judy_record ''Badges'' = map_of carol_record ''Badges''"
  by (simp add: carol_fetch judy_fetch carol_record_def judy_record_def)

text \<open>
  C8: for a non-empty username, when the profile lookup or the solved-count lookup fails,
  \<^verbatim>\<open>fetch_user_data\<close> raises an \<^verbatim>\<open>APIError\<close> whose message is
  \<open>Failed to fetch data for <username>: \<close> followed by the message of a failed lookup, so
  no record is returned. The wrapped message is that of the first lookup to fail in the
  order profile, badges, solved: the profile's when the profile lookup fails, the solved
  count's when profile and badges succeeded.
\<close>

theorem fetch_user_data_mandatory_lookups:
  assumes "username \<noteq> []"
    and "(\<exists>x. get_profile net username = Inl x) \<or> (\<exists>x. get_solved net username = Inl x)"
  shows "(\<exists>e. fetch_user_data net username
               = Inl (APIError (''Failed to fetch data for '' @ username @ '': '' @ e))
            \<and> (get_profile net username = Inl (APIError e)
                \<or> get_badges net username = Inl (APIError e)
                \<or> get_solved net username = Inl (APIError e)))
         \<and> (\<forall>e. get_profile net username = Inl (APIError e) \<longrightarrow>
               fetch_user_data net username
                 = Inl (APIError (''Failed to fetch data for '' @ username @ '': '' @ e)))
         \<and> (\<forall>p b e. get_profile net username = Inr p \<and> get_badges net username = Inr b
                   \<and> get_solved net username = Inl (APIError e) \<longrightarrow>
               fetch_user_data net username
                 = Inl (APIError (''Failed to fetch data for '' @ username @ '': '' @ e)))"
proof -
  have a: "\<And>x. get_profile net username = Inl x \<Longrightarrow> \<exists>m. x = APIError m"
    and b: "\<And>x. get_badges net username = Inl x \<Longrightarrow> \<exists>m. x = APIError m"
    and c: "\<And>x. get_solved net username = Inl x \<Longrightarrow> \<exists>m. x = APIError m"
    by (auto simp: get_profile_def get_badges_def get_solved_def dest: request_raises_APIError)
  show ?thesis
    using assms(2) a b c
    by (cases "get_profile net username"; cases "get_badges net username";
        cases "get_solved net username")
       (auto simp: fetch_user_data_valid[OF assms(1)] fetch_body_def exn_bind_def)
qed

text \<open>
  On the table network, \<open>hal\<close> is unknown, so his profile lookup fails with 404, and
  \<open>ivan\<close>'s solved-count lookup is the only one to fail.
\<close>

theorem fetch_user_data_mandatory_lookups_witness:
  "fetch_user_data demo_net ''hal'' = Inl (APIError
      ''Failed to fetch data for hal: HTTP error occurred: 404 Client Error: Not Found'')
   \<and> fetch_user_data demo_net ''ivan'' = Inl (APIError
      ''Failed to fetch data for ivan: HTTP error occurred: 500 Server Error: Internal Server Error'')"
proof -
  have hal: "get_profile demo_net ''hal''
               = Inl (APIError ''HTTP error occurred: 404 Client Error: Not Found'')"
    by (simp add: lookup_simps)
  have ivan: "get_profile demo_net ''ivan''
                = Inr (PDict [(''reputation'', PInt 5), (''ranking'', PInt 123456)])"
    "get_badges demo_net ''ivan'' = Inr (PDict [(''badges'', PList [])])"
    "get_solved demo_net ''ivan''
       = Inl (APIError ''HTTP error occurred: 500 Server Error: Internal Server Error'')"
    by (simp_all add: lookup_simps)
  have "''hal'' \<noteq> []" and "''ivan'' \<noteq> []" by simp_all
  from fetch_user_data_mandatory_lookups[OF this(1), of demo_net] hal
       fetch_user_data_mandatory_lookups[OF this(2), of demo_net] ivan
  show ?thesis by auto
qed

text \<open>
  C2, as the code has it: the badges lookup is made inside the same \<^verbatim>\<open>try\<close> block as the
  other two, so when it fails after a successful profile lookup, \<^verbatim>\<open>fetch_user_data\<close>
  raises the \<^verbatim>\<open>APIError\<close> that wraps the badges failure, and returns no record. What is
  absorbed is a badges lookup that succeeds with nothing usable: when the profile and
  solved-count payloads are objects and the badges payload is empty, or is an object whose
  \<open>badges\<close> field is absent or not a list, the record is returned with \<open>Badges\<close> left at
  \<open>N/A\<close>.
\<close>

theorem fetch_user_data_badges_lookup:
  "(username \<noteq> []
      \<and> get_profile net username = Inr profile
      \<and> get_badges net username = Inl (APIError e)
    \<longrightarrow> fetch_user_data net username
          = Inl (APIError (''Failed to fetch data for '' @ username @ '': '' @ e)))
   \<and> (username \<noteq> []
      \<and> get_profile net username = Inr (PDict p)
      \<and> get_solved net username = Inr (PDict s)
      \<and> get_badges net username = Inr badges
      \<and> (\<not> truthy badges
          \<or> (\<exists>b. badges = PDict b \<and> \<not> isinstance_list (dict_get b ''badges'' PNone)))
    \<longrightarrow> fetch_user_data net username =
          Inr [(''Username'', PStr username),
               (''Rating'', dict_get p ''reputation'' (PStr ''N/A'')),
               (''Problems Solved'', dict_get s ''solvedProblem'' (PStr ''N/A'')),
               (''Badges'', PStr ''N/A''),
               (''Ranking'', dict_get p ''ranking'' (PStr ''N/A''))])"
proof (intro conjI impI)
  assume "username \<noteq> []
      \<and> get_profile net username = Inr profile
      \<and> get_badges net username = Inl (APIError e)"
  then show "fetch_user_data net username
          = Inl (APIError (''Failed to fetch data for '' @ username @ '': '' @ e))"
    by (simp add: fetch_user_data_valid fetch_body_def exn_bind_def)
next
  assume h: "username \<noteq> []
      \<and> get_profile net username = Inr (PDict p)
      \<and> get_solved net username = Inr (PDict s)
      \<and> get_badges net username = Inr badges
      \<and> (\<not> truthy badges
          \<or> (\<exists>b. badges = PDict b \<and> \<not> isinstance_list (dict_get b ''badges'' PNone)))"
  then have "get_profile net username = Inr (PDict p)"
    and "get_solved net username = Inr (PDict s)"
    and "get_badges net username = Inr badges"
    and "\<not> truthy badges
          \<or> (\<exists>b. badges = PDict b \<and> \<not> isinstance_list (dict_get b ''badges'' PNone))"
    by blast+
  from fetch_body_no_badge_list[OF this] h
  show "fetch_user_data net username =
          Inr [(''Username'', PStr username),
               (''Rating'', dict_get p ''reputation'' (PStr ''N/A'')),
               (''Problems Solved'', dict_get s ''solvedProblem'' (PStr ''N/A'')),
               (''Badges'', PStr ''N/A''),
               (''Ranking'', dict_get p ''ranking'' (PStr ''N/A''))]"
    by (simp add: fetch_user_data_valid)
qed

text \<open>
  On the table network: \<open>dave\<close>'s badges request times out, and \<open>frank\<close>'s badges payload
  is an object without a \<open>badges\<close> field.
\<close>

theorem fetch_user_data_badges_lookup_witness:
  "fetch_user_data demo_net ''dave'' =
     Inl (APIError ''Failed to fetch data for dave: Request error occurred: Read timed out.'')
   \<and> fetch_user_data demo_net ''frank'' =
     Inr [(''Username'', PStr ''frank''), (''Rating'', PStr ''N/A''),
          (''Problems Solved'', PStr ''N/A''), (''Badges'', PStr ''N/A''),
          (''Ranking'', PStr ''N/A'')]"
proof -
  have dave: "''dave'' \<noteq> []
      \<and> get_profile demo_net ''dave'' = Inr (PDict [(''reputation'', PInt 70), (''ranking'', PInt 9000)])
      \<and> get_badges demo_net ''dave'' = Inl (APIError ''Request error occurred: Read timed out.'')"
    by (simp add: lookup_simps)
  have frank: "''frank'' \<noteq> []
      \<and> get_profile demo_net ''frank''
          = Inr (PDict [(''errors'', PList [PDict [(''message'', PStr ''That user does not exist.'')]])])
      \<and> get_solved demo_net ''frank''
          = Inr (PDict [(''errors'', PList [PDict [(''message'', PStr ''That user does not exist.'')]])])
      \<and> get_badges demo_net ''frank'' = Inr no_such_user
      \<and> (\<not> truthy no_such_user
          \<or> (\<exists>b. no_such_user = PDict b \<and> \<not> isinstance_list (dict_get b ''badges'' PNone)))"
    by (simp add: lookup_simps dict_get_def)
  from fetch_user_data_badges_lookup[of "''dave''" demo_net
          "PDict [(''reputation'', PInt 70), (''ranking'', PInt 9000)]"
          "''Request error occurred: Read timed out.''"] dave
  have d: "fetch_user_data demo_net ''dave'' =
     Inl (APIError ''Failed to fetch data for dave: Request error occurred: Read timed out.'')"
    by simp
  from fetch_user_data_badges_lookup[of "''frank''" demo_net _ _
          "[(''errors'', PList [PDict [(''message'', PStr ''That user does not exist.'')]])]"
          "[(''errors'', PList [PDict [(''message'', PStr ''That user does not exist.'')]])]"
          no_such_user] frank
  have "fetch_user_data demo_net ''frank'' =
     Inr [(''Username'', PStr ''frank''),
          (''Rating'', dict_get [(''errors'', PList [PDict [(''message'', PStr ''That user does not exist.'')]])] ''reputation'' (PStr ''N/A'')),
          (''Problems Solved'', dict_get [(''errors'', PList [PDict [(''message'', PStr ''That user does not exist.'')]])] ''solvedProblem'' (PStr ''N/A'')),
          (''Badges'', PStr ''N/A''),
          (''Ranking'', dict_get [(''errors'', PList [PDict [(''message'', PStr ''That user does not exist.'')]])] ''ranking'' (PStr ''N/A''))]"
    by blast
  then have "fetch_user_data demo_net ''frank'' =
     Inr [(''Username'', PStr ''frank''), (''Rating'', PStr ''N/A''),
          (''Problems Solved'', PStr ''N/A''), (''Badges'', PStr ''N/A''),
          (''Ranking'', PStr ''N/A'')]"
    by (simp add: dict_get_def)
  with d show ?thesis by blast
qed

text \<open>
  \<open>dave\<close>'s profile and solved-count lookups succeed and his badges lookup fails: the
  aggregation fails.
\<close>

theorem fetch_user_data_badges_lookup_fatal:
  "get_profile demo_net ''dave'' = Inr (PDict [(''reputation'', PInt 70), (''ranking'', PInt 9000)])
   \<and> get_solved demo_net ''dave'' = Inr (PDict [(''solvedProblem'', PInt 12)])
   \<and> get_badges demo_net ''dave'' = Inl (APIError ''Request error occurred: Read timed out.'')
   \<and> fetch_user_data demo_net ''dave''
       = Inl (APIError ''Failed to fetch data for dave: Request error occurred: Read timed out.'')"
  by (intro conjI dave_fetch) (simp_all add: lookup_simps)

section \<open>The batch loop\<close>

text \<open>
  The exceptions of \<^verbatim>\<open>fetch_user_data\<close> are the program's own two when the payloads have
  the shape the code reads: profile and solved count are objects, and the badges payload
  is empty, or an object whose \<open>badges\<close> field is absent, not a list, or a list of objects
  whose display names are absent or strings.
\<close>

lemma fetch_user_data_own_exceptions:
  assumes "\<forall>v. get_profile net username = Inr v \<longrightarrow> (\<exists>p. v = PDict p)"
    and "\<forall>v. get_solved net username = Inr v \<longrightarrow> (\<exists>s. v = PDict s)"
    and "\<forall>v. get_badges net username = Inr v \<longrightarrow>
           \<not> truthy v
           \<or> (\<exists>b. v = PDict b
                 \<and> (\<not> isinstance_list (dict_get b ''badges'' PNone)
                     \<or> (\<exists>ds. dict_get b ''badges'' PNone = PList (map PDict ds)
                           \<and> (\<forall>d \<in> set ds. case map_of d ''displayName'' of
                                                None \<Rightarrow> True | Some n \<Rightarrow> isinstance_str n))))"
  shows "fetch_user_data net username \<noteq> Inl AttributeError
         \<and> fetch_user_data net username \<noteq> Inl TypeError"
proof (cases "username = []")
  case True
  then show ?thesis by (simp add: fetch_user_data_def validate_username_def exn_bind_def)
next
  case valid: False
  note fud = fetch_user_data_valid[OF valid, of net]
  show ?thesis
  proof (cases "get_profile net username")
    case (Inl x)
    with request_raises_APIError[of net "''/'' @ username" x] show ?thesis
      by (auto simp: fud fetch_body_def exn_bind_def get_profile_def)
  next
    case profile: (Inr v)
    with assms(1) obtain p where p: "get_profile net username = Inr (PDict p)" by auto
    show ?thesis
    proof (cases "get_badges net username")
      case (Inl x)
      with request_raises_APIError[of net "''/'' @ username @ ''/badges''" x] p show ?thesis
        by (auto simp: fud fetch_body_def exn_bind_def get_badges_def)
    next
      case badges: (Inr bv)
      show ?thesis
      proof (cases "get_solved net username")
        case (Inl x)
        with request_raises_APIError[of net "''/'' @ username @ ''/solved''" x] p badges
        show ?thesis
          by (auto simp: fud fetch_body_def exn_bind_def get_solved_def)
      next
        case solved: (Inr sv)
        with assms(2) obtain s where s: "get_solved net username = Inr (PDict s)" by auto
        from assms(3) badges consider
            (absorbed) "\<not> truthy bv
               \<or> (\<exists>b. bv = PDict b \<and> \<not> isinstance_list (dict_get b ''badges'' PNone))"
          | (listed) b ds where "bv = PDict b"
              "dict_get b ''badges'' PNone = PList (map PDict ds)"
              "\<forall>d \<in> set ds. case map_of d ''displayName'' of
                               None \<Rightarrow> True | Some n \<Rightarrow> isinstance_str n"
          by blast
        then show ?thesis
        proof cases
          case absorbed
          from fetch_body_no_badge_list[OF p s badges absorbed] show ?thesis
            by (simp add: fud)
        next
          case listed
          from listed(2) have "map_of b ''badges'' = Some (PList (map PDict ds))"
            by (auto simp: dict_get_def split: option.splits)
          from fetch_body_badge_list[OF p s badges[unfolded listed(1)] this listed(3)]
          show ?thesis by (simp add: fud)
        qed
      qed
    qed
  qed
qed

text \<open>
  What the loop does when no task raises anything but \<^verbatim>\<open>APIError\<close> and
  \<^verbatim>\<open>ValidationError\<close>: it returns, the records are those of the tasks that returned, in
  the order of submission, and the printed lines are those of the tasks that raised.
\<close>

lemma collect_caught:
  assumes "\<forall>f \<in> set fs. snd f \<noteq> Inl AttributeError \<and> snd f \<noteq> Inl TypeError"
  shows "collect fs (rs, ps) =
     Inr (rs @ concat (map (\<lambda>(u, out). case out of Inr r \<Rightarrow> [r] | Inl e \<Rightarrow> []) fs),
          ps @ concat (map (\<lambda>(u, out). case out of
                  Inl (APIError e) \<Rightarrow> [api_error_line u e]
                | Inl (ValidationError e) \<Rightarrow> [validation_error_line u e]
                | _ \<Rightarrow> []) fs))"
  using assms
proof (induction fs arbitrary: rs ps)
  case Nil
  then show ?case by simp
next
  case (Cons f fs)
  obtain username out where f: "f = (username, out)" by (cases f)
  show ?case
  proof (cases out)
    case (Inr user_data)
    with Cons f show ?thesis by simp
  next
    case (Inl e)
    with Cons f show ?thesis by (cases e) simp_all
  qed
qed

lemma length_caught:
  assumes "\<forall>f \<in> set fs. snd f \<noteq> Inl AttributeError \<and> snd f \<noteq> Inl TypeError"
  shows "length (concat (map (\<lambda>(u, out). case out of Inr r \<Rightarrow> [r] | Inl e \<Rightarrow> []) fs))
       + length (concat (map (\<lambda>(u, out). case out of
                  Inl (APIError e) \<Rightarrow> [api_error_line u e]
                | Inl (ValidationError e) \<Rightarrow> [validation_error_line u e]
                | _ \<Rightarrow> []) fs))
       = length fs"
  using assms
proof (induction fs)
  case Nil
  then show ?case by simp
next
  case (Cons f fs)
  obtain username out where f: "f = (username, out)" by (cases f)
  show ?case
  proof (cases out)
    case (Inr user_data)
    with Cons f show ?thesis by simp
  next
    case (Inl e)
    with Cons f show ?thesis by (cases e) simp_all
  qed
qed

text \<open>
  C1, as the code has it: when every identity's \<^verbatim>\<open>fetch_user_data\<close> returns a record or
  raises \<^verbatim>\<open>APIError\<close> or \<^verbatim>\<open>ValidationError\<close>, the loop returns and accounts for every
  identity exactly once. The records are those of the identities whose task returned, the
  printed lines are one per identity whose task raised, naming the identity and the
  reason, both in the order of the input, and their numbers add up to the number of
  identities.
\<close>

theorem fetch_all_accounts:
  assumes "\<forall>u \<in> set usernames. fetch_user_data net u \<noteq> Inl AttributeError
                                \<and> fetch_user_data net u \<noteq> Inl TypeError"
  shows "\<exists>results printed. fetch_all net usernames = Inr (results, printed)
     \<and> length results + length printed = length usernames
     \<and> results = concat (map (\<lambda>u. case fetch_user_data net u of Inr r \<Rightarrow> [r] | Inl e \<Rightarrow> [])
                     usernames)
     \<and> printed = concat (map (\<lambda>u. case fetch_user_data net u of
                    Inl (APIError e) \<Rightarrow> [api_error_line u e]
                  | Inl (ValidationError e) \<Rightarrow> [validation_error_line u e]
                  | _ \<Rightarrow> []) usernames)"
proof -
  from assms have caught: "\<forall>f \<in> set (submit_all net usernames).
      snd f \<noteq> Inl AttributeError \<and> snd f \<noteq> Inl TypeError"
    by (auto simp: submit_all_def)
  have "fetch_all net usernames =
     Inr (concat (map (\<lambda>(u, out). case out of Inr r \<Rightarrow> [r] | Inl e \<Rightarrow> [])
            (submit_all net usernames)),
          concat (map (\<lambda>(u, out). case out of
                  Inl (APIError e) \<Rightarrow> [api_error_line u e]
                | Inl (ValidationError e) \<Rightarrow> [validation_error_line u e]
                | _ \<Rightarrow> []) (submit_all net usernames)))"
    using collect_caught[OF caught, of "[]" "[]"] by (simp add: fetch_all_def)
  moreover from length_caught[OF caught]
  have "length (concat (map (\<lambda>(u, out). case out of Inr r \<Rightarrow> [r] | Inl e \<Rightarrow> [])
            (submit_all net usernames)))
       + length (concat (map (\<lambda>(u, out). case out of
                  Inl (APIError e) \<Rightarrow> [api_error_line u e]
                | Inl (ValidationError e) \<Rightarrow> [validation_error_line u e]
                | _ \<Rightarrow> []) (submit_all net usernames)))
       = length usernames"
    by (simp add: submit_all_def)
  ultimately show ?thesis
    by (simp add: submit_all_def comp_def)
qed

text \<open>
  A batch of four on the table network: \<open>carol\<close> and \<open>frank\<close> get a record, \<open>dave\<close> and the
  empty username a printed line.
\<close>

theorem fetch_all_accounts_witness:
  "fetch_all demo_net [''carol'', ''dave'', [], ''frank''] =
     Inr ([carol_record, frank_record],
          [''Error fetching data for dave: Failed to fetch data for dave: Request error occurred: Read timed out.'',
           ''Validation error for : Username must be a non-empty string''])
   \<and> length [carol_record, frank_record] + length
      [''Error fetching data for dave: Failed to fetch data for dave: Request error occurred: Read timed out.'',
       ''Validation error for : Username must be a non-empty string'']
     = length [''carol'', ''dave'', [], ''frank'']"
proof -
  have e: "fetch_user_data demo_net [] = Inl (ValidationError ''Username must be a non-empty string'')"
    by (simp add: fetch_user_data_def validate_username_def exn_bind_def)
  have "\<forall>u \<in> set [''carol'', ''dave'', [], ''frank''].
          fetch_user_data demo_net u \<noteq> Inl AttributeError
          \<and> fetch_user_data demo_net u \<noteq> Inl TypeError"
    by (simp add: carol_fetch dave_fetch frank_fetch e)
  from fetch_all_accounts[OF this] show ?thesis
    by (simp add: carol_fetch dave_fetch frank_fetch e api_error_line_def
        validation_error_line_def)
qed

text \<open>
  A batch the loop does not survive: \<open>erin\<close>'s badges payload has a badge whose display
  name is \<^verbatim>\<open>null\<close>, so \<^verbatim>\<open>join\<close> raises \<^verbatim>\<open>TypeError\<close> inside \<^verbatim>\<open>fetch_user_data\<close>; the loop
  catches neither that nor \<^verbatim>\<open>AttributeError\<close>, and \<^verbatim>\<open>main\<close> ends with the exception. No
  result is left for any of the three identities, although \<open>carol\<close> and \<open>gina\<close> on their
  own are fetched.
\<close>

theorem fetch_all_uncaught_aborts:
  "fetch_all demo_net [''carol'', ''gina''] = Inr ([carol_record, gina_record], [])
   \<and> fetch_user_data demo_net ''erin'' = Inl TypeError
   \<and> fetch_all demo_net [''carol'', ''erin'', ''gina''] = Inl TypeError"
  by (simp add: fetch_all_def submit_all_def carol_fetch erin_fetch gina_fetch)

section \<open>The ranker\<close>

subsection \<open>The stable sort\<close>

lemma rank_users_Inr:
  "rank_users arrange data = Inr (r, s) \<longleftrightarrow>
     py_sorted arrange rating_key True data = Inr r
     \<and> py_sorted arrange solved_key True data = Inr s"
  by (auto simp: rank_users_def exn_bind_def split: sum.splits)

lemma py_sorted_ordered:
  "\<not> unordered_keys key xs \<Longrightarrow>
     py_sorted arrange key True xs = exn_bind (py_sort key (rev xs)) (\<lambda>ys. Inr (rev ys))"
  by (simp add: py_sorted_def)

lemma str_not_number: "isinstance_str a \<Longrightarrow> \<not> is_number a \<and> \<not> is_nan a"
  by (cases a) auto

lemma sortable_ordered: "sortable_keys key xs \<Longrightarrow> \<not> unordered_keys key xs"
  by (cases xs) (auto simp: sortable_keys_def unordered_keys_def dest: str_not_number)

lemma py_lt_list_irrefl:
  "(\<And>x. x \<in> set xs \<Longrightarrow> py_lt x x \<noteq> Inr True) \<Longrightarrow> py_lt (PList xs) (PList xs) \<noteq> Inr True"
  by (induction xs) auto

lemma py_lt_irrefl: "py_lt k k \<noteq> Inr True"
proof (induction k)
  case (PList xs)
  then show ?case by (intro py_lt_list_irrefl) auto
qed auto

lemma py_insort_mset:
  "py_insort key x ys = Inr zs \<Longrightarrow> mset zs = mset (x # ys)"
  by (induction ys arbitrary: zs) (auto simp: exn_bind_def split: sum.splits if_splits)

lemma py_sort_mset: "py_sort key xs = Inr ys \<Longrightarrow> mset ys = mset xs"
proof (induction xs arbitrary: ys)
  case Nil
  then show ?case by simp
next
  case (Cons x xs)
  then obtain ws where ws: "py_sort key xs = Inr ws" and ins: "py_insort key x ws = Inr ys"
    by (auto simp: exn_bind_def split: sum.splits)
  from py_insort_mset[OF ins] Cons.IH[OF ws] show ?case by simp
qed

lemma py_sorted_rev_mset:
  assumes "py_sorted arrange key True xs = Inr ys" and "\<not> unordered_keys key xs"
  shows "mset ys = mset xs"
proof -
  from assms obtain ws where ws: "py_sort key (rev xs) = Inr ws" and ys: "ys = rev ws"
    by (auto simp: py_sorted_ordered exn_bind_def split: sum.splits)
  from py_sort_mset[OF ws] show ?thesis by (simp add: ys)
qed

text \<open>
  Stability, for any class \<open>P\<close> of keys none of which is less than another: the records
  with a key in \<open>P\<close> keep their order.
\<close>

lemma py_insort_filter:
  assumes "py_insort key x ys = Inr zs"
    and "\<And>y. y \<in> set ys \<Longrightarrow> P (key y) \<Longrightarrow> P (key x) \<Longrightarrow> py_lt (key y) (key x) \<noteq> Inr True"
  shows "filter (\<lambda>z. P (key z)) zs = filter (\<lambda>z. P (key z)) (x # ys)"
  using assms
proof (induction ys arbitrary: zs)
  case Nil
  then show ?case by auto
next
  case (Cons y ys)
  from Cons.prems(1) obtain lt where lt: "py_lt (key y) (key x) = Inr lt"
    by (auto simp: exn_bind_def split: sum.splits)
  show ?case
  proof (cases lt)
    case False
    with Cons.prems(1) lt show ?thesis by (auto simp: exn_bind_def)
  next
    case True
    with Cons.prems(1) lt obtain ws where ws: "py_insort key x ys = Inr ws" and zs: "zs = y # ws"
      by (auto simp: exn_bind_def split: sum.splits)
    have "filter (\<lambda>z. P (key z)) ws = filter (\<lambda>z. P (key z)) (x # ys)"
      by (rule Cons.IH[OF ws]) (use Cons.prems(2) in auto)
    moreover have "\<not> (P (key y) \<and> P (key x))"
      using Cons.prems(2)[of y] lt True by auto
    ultimately show ?thesis by (auto simp: zs)
  qed
qed

lemma py_sort_filter:
  assumes "py_sort key xs = Inr ys"
    and "\<And>x y. x \<in> set xs \<Longrightarrow> y \<in> set xs \<Longrightarrow> P (key x) \<Longrightarrow> P (key y)
           \<Longrightarrow> py_lt (key y) (key x) \<noteq> Inr True"
  shows "filter (\<lambda>z. P (key z)) ys = filter (\<lambda>z. P (key z)) xs"
  using assms
proof (induction xs arbitrary: ys)
  case Nil
  then show ?case by simp
next
  case (Cons x xs)
  from Cons.prems(1) obtain ws where ws: "py_sort key xs = Inr ws"
    and ins: "py_insort key x ws = Inr ys"
    by (auto simp: exn_bind_def split: sum.splits)
  have set_ws: "set ws = set xs" using py_sort_mset[OF ws] by (rule mset_eq_setD)
  have "filter (\<lambda>z. P (key z)) ys = filter (\<lambda>z. P (key z)) (x # ws)"
    by (rule py_insort_filter[OF ins]) (use Cons.prems(2) set_ws in auto)
  moreover have "filter (\<lambda>z. P (key z)) ws = filter (\<lambda>z. P (key z)) xs"
    by (rule Cons.IH[OF ws]) (use Cons.prems(2) in auto)
  ultimately show ?case by simp
qed

lemma py_sorted_rev_filter:
  assumes "py_sorted arrange key True xs = Inr ys" and "\<not> unordered_keys key xs"
    and "\<And>x y. x \<in> set xs \<Longrightarrow> y \<in> set xs \<Longrightarrow> P (key x) \<Longrightarrow> P (key y)
           \<Longrightarrow> py_lt (key y) (key x) \<noteq> Inr True"
  shows "filter (\<lambda>z. P (key z)) ys = filter (\<lambda>z. P (key z)) xs"
proof -
  from assms(1,2) obtain ws where ws: "py_sort key (rev xs) = Inr ws" and ys: "ys = rev ws"
    by (auto simp: py_sorted_ordered exn_bind_def split: sum.splits)
  have "filter (\<lambda>z. P (key z)) ws = filter (\<lambda>z. P (key z)) (rev xs)"
    by (rule py_sort_filter[OF ws]) (use assms(3) in auto)
  then have "rev (filter (\<lambda>z. P (key z)) ws) = filter (\<lambda>z. P (key z)) xs"
    by (simp add: rev_filter)
  then show ?thesis by (simp add: ys rev_filter)
qed

lemma py_sorted_rev_same_key:
  assumes "py_sorted arrange key True xs = Inr ys" and "\<not> unordered_keys key xs"
  shows "filter (\<lambda>z. key z = k) ys = filter (\<lambda>z. key z = k) xs"
  by (rule py_sorted_rev_filter[OF assms, where P = "\<lambda>a. a = k"]) (simp add: py_lt_irrefl)

subsection \<open>Sortable keys\<close>

text \<open>
  Where \<^verbatim>\<open><\<close> on the keys agrees with a linear order, the sort is the library's stable
  insertion sort by that order.
\<close>

lemma py_insort_refines:
  fixes f :: "pyval \<Rightarrow> 'k::linorder"
  assumes "\<And>y. y \<in> set ys \<Longrightarrow> py_lt (key y) (key x) = Inr (f (key y) < f (key x))"
  shows "py_insort key x ys = Inr (insort_key (\<lambda>z. f (key z)) x ys)"
  using assms by (induction ys) (auto simp: exn_bind_def)

lemma py_sort_refines:
  fixes f :: "pyval \<Rightarrow> 'k::linorder"
  assumes "\<And>x y. x \<in> set xs \<Longrightarrow> y \<in> set xs
             \<Longrightarrow> py_lt (key y) (key x) = Inr (f (key y) < f (key x))"
  shows "py_sort key xs = Inr (sort_key (\<lambda>z. f (key z)) xs)"
  using assms
proof (induction xs)
  case Nil
  then show ?case by simp
next
  case (Cons x xs)
  have "py_sort key xs = Inr (sort_key (\<lambda>z. f (key z)) xs)"
    using Cons by simp
  moreover have "py_insort key x (sort_key (\<lambda>z. f (key z)) xs)
        = Inr (insort_key (\<lambda>z. f (key z)) x (sort_key (\<lambda>z. f (key z)) xs))"
    by (rule py_insort_refines) (use Cons.prems in auto)
  ultimately show ?case by (simp add: exn_bind_def)
qed

lemma py_sorted_rev_refines:
  fixes f :: "pyval \<Rightarrow> 'k::linorder"
  assumes "\<And>x y. x \<in> set xs \<Longrightarrow> y \<in> set xs
             \<Longrightarrow> py_lt (key y) (key x) = Inr (f (key y) < f (key x))"
    and "\<not> unordered_keys key xs"
  shows "py_sorted arrange key True xs = Inr (rev (sort_key (\<lambda>z. f (key z)) (rev xs)))"
proof -
  have "py_sort key (rev xs) = Inr (sort_key (\<lambda>z. f (key z)) (rev xs))"
    by (rule py_sort_refines) (use assms(1) in auto)
  then show ?thesis by (simp add: py_sorted_ordered[OF assms(2)] exn_bind_def)
qed

lemma py_lt_numbers:
  "is_number a \<Longrightarrow> \<not> is_nan a \<Longrightarrow> is_number b \<Longrightarrow> \<not> is_nan b
     \<Longrightarrow> py_lt a b = Inr (num_of a < num_of b)"
  by (cases a; cases b) auto

lemma py_lt_strings:
  "isinstance_str a \<Longrightarrow> isinstance_str b \<Longrightarrow> py_lt a b = Inr (str_of a < str_of b)"
  by (cases a; cases b) auto

lemma py_eq_number:
  "is_number a \<Longrightarrow> py_eq a k
     = (is_number k \<and> (if is_nan a \<or> is_nan k then is_nan a \<and> is_nan k
                        else num_of a = num_of k))"
  by (cases a; cases k) auto

lemma py_eq_numbers:
  "is_number a \<Longrightarrow> \<not> is_nan a \<Longrightarrow> is_number b \<Longrightarrow> \<not> is_nan b \<Longrightarrow> py_eq a k \<Longrightarrow> py_eq b k
     \<Longrightarrow> num_of a = num_of b"
  by (simp add: py_eq_number split: if_splits)

lemma py_eq_strings:
  "isinstance_str a \<Longrightarrow> isinstance_str b \<Longrightarrow> py_eq a k \<Longrightarrow> py_eq b k \<Longrightarrow> a = b"
  by (cases a; cases b; cases k) auto

text \<open>
  The result of sorting in descending order, when \<^verbatim>\<open><\<close> agrees with a linear order: no
  record has a key less than the key of a later one, and sorting the result again
  returns it.
\<close>

lemma py_sorted_rev_linorder:
  fixes f :: "pyval \<Rightarrow> 'k::linorder"
  assumes cmp: "\<And>x y. x \<in> set xs \<Longrightarrow> y \<in> set xs
                  \<Longrightarrow> py_lt (key y) (key x) = Inr (f (key y) < f (key x))"
    and ord: "\<And>ys. set ys = set xs \<Longrightarrow> \<not> unordered_keys key ys"
  shows "\<exists>ys. py_sorted arrange key True xs = Inr ys
            \<and> sorted_wrt (\<lambda>x y. py_lt (key x) (key y) = Inr False) ys
            \<and> py_sorted arrange key True ys = Inr ys"
proof -
  define g where "g = (\<lambda>z. f (key z))"
  define ws where "ws = sort_key g (rev xs)"
  have res: "py_sorted arrange key True xs = Inr (rev ws)"
    unfolding ws_def g_def by (rule py_sorted_rev_refines) (use cmp ord in auto)
  have set_ws: "set ws = set xs" by (simp add: ws_def)
  have sorted_ws: "sorted (map g ws)" by (simp add: ws_def)
  then have "sorted_wrt (\<lambda>a b. g a \<le> g b) ws" by (simp add: sorted_map)
  then have "sorted_wrt (\<lambda>a b. g b \<le> g a) (rev ws)" by (simp add: sorted_wrt_rev)
  then have desc: "sorted_wrt (\<lambda>x y. py_lt (key x) (key y) = Inr False) (rev ws)"
  proof (rule sorted_wrt_mono_rel[rotated])
    fix x y assume "x \<in> set (rev ws)" "y \<in> set (rev ws)" "g y \<le> g x"
    then show "py_lt (key x) (key y) = Inr False"
      using cmp[of y x] set_ws by (auto simp: g_def)
  qed
  have "py_sorted arrange key True (rev ws) = Inr (rev (sort_key g (rev (rev ws))))"
    unfolding g_def by (rule py_sorted_rev_refines) (use cmp set_ws ord[of "rev ws"] in auto)
  also have "sort_key g (rev (rev ws)) = ws"
    using sorted_ws by (simp add: sort_key_id_if_sorted)
  finally have idem: "py_sorted arrange key True (rev ws) = Inr (rev ws)" .
  from res desc idem show ?thesis by blast
qed

lemma short_cases: "length xs \<le> 1 \<Longrightarrow> xs = [] \<or> (\<exists>x. xs = [x])"
  by (cases xs) auto

lemma py_sorted_rev_short: "length xs \<le> 1 \<Longrightarrow> py_sorted arrange key True xs = Inr xs"
  by (drule short_cases) (auto simp: py_sorted_def unordered_keys_def exn_bind_def)

lemma py_sorted_rev_sortable:
  assumes "sortable_keys key xs"
  shows "\<exists>ys. py_sorted arrange key True xs = Inr ys
            \<and> sorted_wrt (\<lambda>x y. py_lt (key x) (key y) = Inr False) ys
            \<and> py_sorted arrange key True ys = Inr ys"
proof -
  consider (short) "length xs \<le> 1"
    | (numbers) "\<forall>x \<in> set xs. is_number (key x) \<and> \<not> is_nan (key x)"
    | (strings) "\<forall>x \<in> set xs. isinstance_str (key x)"
    using assms by (auto simp: sortable_keys_def)
  then show ?thesis
  proof cases
    case short
    have "sorted_wrt (\<lambda>x y. py_lt (key x) (key y) = Inr False) xs"
      using short_cases[OF short] by auto
    with py_sorted_rev_short[OF short, of arrange key] show ?thesis by simp
  next
    case numbers
    show ?thesis
    proof (rule py_sorted_rev_linorder[where f = num_of])
      fix x y assume "x \<in> set xs" "y \<in> set xs"
      with numbers show "py_lt (key y) (key x) = Inr (num_of (key y) < num_of (key x))"
        by (simp add: py_lt_numbers)
    next
      fix ys :: "'a list" assume "set ys = set xs"
      with numbers show "\<not> unordered_keys key ys" by (auto simp: unordered_keys_def)
    qed
  next
    case strings
    show ?thesis
    proof (rule py_sorted_rev_linorder[where f = str_of])
      fix x y assume "x \<in> set xs" "y \<in> set xs"
      with strings show "py_lt (key y) (key x) = Inr (str_of (key y) < str_of (key x))"
        by (simp add: py_lt_strings)
    next
      fix ys :: "'a list" assume "set ys = set xs"
      with strings have "\<forall>y \<in> set ys. isinstance_str (key y)" by simp
      then have "\<forall>y \<in> set ys. \<not> is_nan (key y)" by (auto dest: str_not_number)
      then show "\<not> unordered_keys key ys" by (auto simp: unordered_keys_def)
    qed
  qed
qed


text \<open>Among sortable keys, records whose keys are equal for \<^verbatim>\<open>==\<close> keep their order.\<close>

lemma py_sorted_rev_equal_keys:
  assumes "py_sorted arrange key True xs = Inr ys" and "sortable_keys key xs"
  shows "filter (\<lambda>z. py_eq (key z) k) ys = filter (\<lambda>z. py_eq (key z) k) xs"
proof (rule py_sorted_rev_filter[OF assms(1) sortable_ordered[OF assms(2)],
        where P = "\<lambda>a. py_eq a k"])
  fix x y
  assume xy: "x \<in> set xs" "y \<in> set xs" and eq: "py_eq (key x) k" "py_eq (key y) k"
  consider (short) "length xs \<le> 1"
    | (numbers) "\<forall>x \<in> set xs. is_number (key x) \<and> \<not> is_nan (key x)"
    | (strings) "\<forall>x \<in> set xs. isinstance_str (key x)"
    using assms(2) by (auto simp: sortable_keys_def)
  then show "py_lt (key y) (key x) \<noteq> Inr True"
  proof cases
    case short
    with xy short_cases[of xs] have "x = y" by auto
    then show ?thesis by (simp add: py_lt_irrefl)
  next
    case numbers
    with xy eq have "num_of (key y) = num_of (key x)"
      by (intro py_eq_numbers[of _ _ k]) auto
    with numbers xy show ?thesis by (simp add: py_lt_numbers)
  next
    case strings
    with xy eq have "key y = key x"
      by (intro py_eq_strings[of _ _ k]) auto
    then show ?thesis by (simp add: py_lt_irrefl)
  qed
qed

subsection \<open>Keys of two kinds\<close>

text \<open>
  A sort that returns has compared every record with another one, so a list that holds a
  string key and a number key is never sorted: \<^verbatim>\<open>sorted\<close> raises \<^verbatim>\<open>TypeError\<close>.
\<close>

lemma py_lt_raises: "py_lt a b = Inl e \<Longrightarrow> e = TypeError"
  by (induction a b rule: py_lt.induct) (auto split: if_splits)

lemma py_insort_raises: "py_insort key x ys = Inl e \<Longrightarrow> e = TypeError"
  by (induction ys) (auto simp: exn_bind_def split: sum.splits if_splits dest: py_lt_raises)

lemma py_sort_raises: "py_sort key xs = Inl e \<Longrightarrow> e = TypeError"
  by (induction xs) (auto simp: exn_bind_def split: sum.splits dest: py_insort_raises)

lemma py_sorted_raises: "py_sorted arrange key reverse xs = Inl e \<Longrightarrow> e = TypeError"
  by (auto simp: py_sorted_def exn_bind_def split: sum.splits if_splits dest: py_sort_raises)

lemma py_lt_str_other: "py_lt a b = Inr v \<Longrightarrow> isinstance_str b \<Longrightarrow> isinstance_str a"
  by (cases a; cases b) auto

lemma py_lt_number_other: "py_lt a b = Inr v \<Longrightarrow> is_number b \<Longrightarrow> is_number a"
  by (cases a; cases b) (auto split: if_splits)

lemma py_insort_compares_head:
  "py_insort key x (y # ys) = Inr zs \<Longrightarrow> \<exists>v. py_lt (key y) (key x) = Inr v"
  by (auto simp: exn_bind_def split: sum.splits)

lemma py_sort_one_kind:
  assumes "py_sort key xs = Inr ys" and "x \<in> set xs" and "y \<in> set xs"
    and "isinstance_str (key x)" and "is_number (key y)"
  shows False
  using assms
proof (induction xs arbitrary: ys x y)
  case Nil
  then show ?case by simp
next
  case (Cons a xs)
  from Cons.prems(1) obtain ws where ws: "py_sort key xs = Inr ws"
    and ins: "py_insort key a ws = Inr ys"
    by (auto simp: exn_bind_def split: sum.splits)
  have set_ws: "set ws = set xs" using py_sort_mset[OF ws] by (rule mset_eq_setD)
  have both: "\<not> (isinstance_str (key a) \<and> is_number (key a))" by (cases "key a") auto
  consider (tail) "x \<in> set xs" "y \<in> set xs" | (x) "x = a" "y \<in> set xs" | (y) "y = a" "x \<in> set xs"
    using Cons.prems(2-5) both by auto
  then show ?case
  proof cases
    case tail
    from Cons.IH[OF ws tail Cons.prems(4,5)] show ?thesis .
  next
    case x
    with set_ws obtain w ws' where w: "ws = w # ws'" by (cases ws) auto
    from ins have "\<exists>v. py_lt (key w) (key a) = Inr v"
      unfolding w by (rule py_insort_compares_head)
    then obtain v where "py_lt (key w) (key a) = Inr v" ..
    with Cons.prems(4) x have "isinstance_str (key w)" by (auto dest: py_lt_str_other)
    moreover have "w \<in> set xs" using w set_ws by auto
    ultimately show ?thesis using Cons.IH[OF ws _ x(2) _ Cons.prems(5)] by blast
  next
    case y
    with set_ws obtain w ws' where w: "ws = w # ws'" by (cases ws) auto
    from ins have "\<exists>v. py_lt (key w) (key a) = Inr v"
      unfolding w by (rule py_insort_compares_head)
    then obtain v where "py_lt (key w) (key a) = Inr v" ..
    with Cons.prems(5) y have "is_number (key w)" by (auto dest: py_lt_number_other)
    moreover have "w \<in> set xs" using w set_ws by auto
    ultimately show ?thesis using Cons.IH[OF ws y(2) _ Cons.prems(4)] by blast
  qed
qed

lemma py_sorted_two_kinds_raises:
  assumes "x \<in> set xs" and "y \<in> set xs" and "isinstance_str (key x)" and "is_number (key y)"
  shows "py_sorted arrange key reverse xs = Inl TypeError"
proof (cases "py_sorted arrange key reverse xs")
  case (Inl e)
  then show ?thesis using py_sorted_raises by blast
next
  case (Inr ys)
  have "\<not> is_number (key x)" using assms(3) by (cases "key x") auto
  with assms(1) have "\<not> unordered_keys key xs" by (auto simp: unordered_keys_def)
  with Inr obtain ws zs where "py_sort key zs = Inr ws" and "set zs = set xs"
    by (auto simp: py_sorted_def exn_bind_def split: sum.splits if_splits)
  with py_sort_one_kind[of key zs ws x y] assms show ?thesis by simp
qed

lemma rank_users_two_kinds_raises:
  assumes "x \<in> set data" and "y \<in> set data"
    and "(isinstance_str (rating_key x) \<and> is_number (rating_key y))
         \<or> (isinstance_str (solved_key x) \<and> is_number (solved_key y))"
  shows "rank_users arrange data = Inl TypeError"
proof (cases "rank_users arrange data")
  case (Inl e)
  then show ?thesis
    by (auto simp: rank_users_def exn_bind_def split: sum.splits dest: py_sorted_raises)
next
  case (Inr views)
  then obtain r s where "py_sorted arrange rating_key True data = Inr r"
    and "py_sorted arrange solved_key True data = Inr s"
    by (cases views) (auto simp: rank_users_Inr)
  with assms py_sorted_two_kinds_raises[of x data y rating_key arrange True]
    py_sorted_two_kinds_raises[of x data y solved_key arrange True]
  show ?thesis by auto
qed

text \<open>
  Conversely, when no key is a list or NaN, a sort that returns had sortable keys: then
  the sortable lists are exactly those that \<^verbatim>\<open>sorted\<close> sorts.
\<close>

lemma py_lt_returns_kinds:
  assumes "py_lt a b = Inr v" and "\<not> isinstance_list a"
  shows "(is_number a \<and> is_number b) \<or> (isinstance_str a \<and> isinstance_str b)"
  using assms by (cases a; cases b) (auto split: if_splits)

lemma py_sort_returns_sortable:
  assumes "py_sort key xs = Inr ys"
    and "\<forall>x \<in> set xs. \<not> isinstance_list (key x) \<and> \<not> is_nan (key x)"
  shows "sortable_keys key xs"
  using assms
proof (induction xs arbitrary: ys)
  case Nil
  then show ?case by (simp add: sortable_keys_def)
next
  case (Cons a xs)
  from Cons.prems(1) obtain ws where ws: "py_sort key xs = Inr ws"
    and ins: "py_insort key a ws = Inr ys"
    by (auto simp: exn_bind_def split: sum.splits)
  have set_ws: "set ws = set xs" using py_sort_mset[OF ws] by (rule mset_eq_setD)
  from Cons.IH[OF ws] Cons.prems(2) have ih: "sortable_keys key xs" by simp
  from Cons.prems(2) have na: "\<not> is_nan (key a)" by simp
  show ?case
  proof (cases ws)
    case Nil
    with set_ws show ?thesis by (simp add: sortable_keys_def)
  next
    case (Cons w ws')
    with set_ws have w: "w \<in> set xs" by auto
    from ins have "\<exists>v. py_lt (key w) (key a) = Inr v"
      unfolding Cons by (rule py_insort_compares_head)
    then obtain v where "py_lt (key w) (key a) = Inr v" ..
    moreover from w Cons.prems(2) have "\<not> isinstance_list (key w)" by simp
    ultimately have kinds: "(is_number (key w) \<and> is_number (key a))
        \<or> (isinstance_str (key w) \<and> isinstance_str (key a))"
      by (rule py_lt_returns_kinds)
    from w Cons.prems(2) have nw: "\<not> is_nan (key w)" by simp
    have both: "\<not> (is_number (key w) \<and> isinstance_str (key w))" by (cases "key w") auto
    consider (short) "length xs \<le> 1"
      | (numbers) "\<forall>x \<in> set xs. is_number (key x) \<and> \<not> is_nan (key x)"
      | (strings) "\<forall>x \<in> set xs. isinstance_str (key x)"
      using ih by (auto simp: sortable_keys_def)
    then show ?thesis
    proof cases
      case short
      with w short_cases[of xs] have "xs = [w]" by auto
      with kinds na nw show ?thesis by (auto simp: sortable_keys_def)
    next
      case numbers
      with w kinds both na show ?thesis by (auto simp: sortable_keys_def)
    next
      case strings
      with w kinds both show ?thesis by (auto simp: sortable_keys_def)
    qed
  qed
qed

lemma py_sorted_rev_returns_iff:
  assumes "\<forall>x \<in> set xs. \<not> isinstance_list (key x) \<and> \<not> is_nan (key x)"
  shows "(\<exists>ys. py_sorted arrange key True xs = Inr ys) \<longleftrightarrow> sortable_keys key xs"
proof
  have ord: "\<not> unordered_keys key xs" using assms by (auto simp: unordered_keys_def)
  assume "\<exists>ys. py_sorted arrange key True xs = Inr ys"
  then obtain ws where ws: "py_sort key (rev xs) = Inr ws"
    by (auto simp: py_sorted_ordered[OF ord] exn_bind_def split: sum.splits)
  from py_sort_returns_sortable[OF ws] assms have "sortable_keys key (rev xs)" by simp
  then show "sortable_keys key xs" by (simp add: sortable_keys_def)
next
  assume "sortable_keys key xs"
  from py_sorted_rev_sortable[OF this]
  show "\<exists>ys. py_sorted arrange key True xs = Inr ys" by blast
qed

lemma rank_users_returns_iff:
  assumes "\<forall>x \<in> set data. \<not> isinstance_list (rating_key x) \<and> \<not> is_nan (rating_key x)
                            \<and> \<not> isinstance_list (solved_key x) \<and> \<not> is_nan (solved_key x)"
  shows "(\<exists>r s. rank_users arrange data = Inr (r, s))
         \<longleftrightarrow> sortable_keys rating_key data \<and> sortable_keys solved_key data"
  using py_sorted_rev_returns_iff[of data rating_key arrange]
    py_sorted_rev_returns_iff[of data solved_key arrange] assms
  by (auto simp: rank_users_Inr)

subsection \<open>The ranked views\<close>

lemmas rank_simps = rank_users_def py_sorted_def unordered_keys_def exn_bind_def rating_key_def
  solved_key_def dict_get_def rec_of_def demo_data_def demo_by_rating_def demo_by_solved_def

lemma demo_data_ranked: "rank_users arrange demo_data = Inr (demo_by_rating, demo_by_solved)"
  by (simp add: rank_simps)

lemma demo_data_sortable:
  "sortable_keys rating_key demo_data" "sortable_keys solved_key demo_data"
  by (simp_all add: sortable_keys_def rating_key_def solved_key_def dict_get_def rec_of_def
      demo_data_def)

text \<open>
  C4 at a batch that \<^verbatim>\<open>main\<close> builds and \<^verbatim>\<open>rank_users\<close> cannot rank: \<open>frank\<close> is unknown to
  the API, whose error object has no \<open>reputation\<close>, so his record holds the string \<open>N/A\<close>
  in \<open>Rating\<close>, and \<open>carol\<close>'s holds 1500. The key of \<open>frank\<close>'s record is that string, not
  the default 0 of \<^verbatim>\<open>x.get("Rating", 0)\<close>, and comparing it with 1500 raises \<^verbatim>\<open>TypeError\<close>:
  there is no ranked view in which the unavailable value could come last.
\<close>

theorem rank_users_unavailable_raises:
  "fetch_all demo_net [''frank'', ''carol''] = Inr ([frank_record, carol_record], [])
   \<and> rating_key frank_record = PStr ''N/A'' \<and> rating_key carol_record = PInt 1500
   \<and> rank_users arrange [frank_record, carol_record] = Inl TypeError"
  by (simp add: fetch_all_def submit_all_def carol_fetch frank_fetch rank_users_def py_sorted_def
      unordered_keys_def exn_bind_def rating_key_def solved_key_def dict_get_def
      frank_record_def carol_record_def)

text \<open>
  C5, as the code has it: on a list of records whose keys are sortable in both ranking
  fields (in each field all numbers, none of them NaN, or all strings, or at most one
  record), \<^verbatim>\<open>rank_users\<close> returns its two views, and each is a stable descending sort of
  the list by its field: a rearrangement of the list in which no record's key is less
  than the key of a later record, and in which the records with one and the same key
  value, and those whose keys are equal for \<^verbatim>\<open>==\<close>, stand in the order they have in the
  list.
\<close>

theorem rank_users_stable_descending:
  assumes "sortable_keys rating_key data" and "sortable_keys solved_key data"
  shows "\<exists>r s. rank_users arrange data = Inr (r, s)
     \<and> mset r = mset data \<and> mset s = mset data
     \<and> sorted_wrt (\<lambda>x y. py_lt (rating_key x) (rating_key y) = Inr False) r
     \<and> sorted_wrt (\<lambda>x y. py_lt (solved_key x) (solved_key y) = Inr False) s
     \<and> (\<forall>k. filter (\<lambda>x. rating_key x = k) r = filter (\<lambda>x. rating_key x = k) data)
     \<and> (\<forall>k. filter (\<lambda>x. solved_key x = k) s = filter (\<lambda>x. solved_key x = k) data)
     \<and> (\<forall>k. filter (\<lambda>x. py_eq (rating_key x) k) r
             = filter (\<lambda>x. py_eq (rating_key x) k) data)
     \<and> (\<forall>k. filter (\<lambda>x. py_eq (solved_key x) k) s
             = filter (\<lambda>x. py_eq (solved_key x) k) data)"
proof -
  from py_sorted_rev_sortable[OF assms(1), of arrange] obtain r where
    r: "py_sorted arrange rating_key True data = Inr r"
       "sorted_wrt (\<lambda>x y. py_lt (rating_key x) (rating_key y) = Inr False) r"
    by blast
  from py_sorted_rev_sortable[OF assms(2), of arrange] obtain s where
    s: "py_sorted arrange solved_key True data = Inr s"
       "sorted_wrt (\<lambda>x y. py_lt (solved_key x) (solved_key y) = Inr False) s"
    by blast
  note ord_r = sortable_ordered[OF assms(1)]
  note ord_s = sortable_ordered[OF assms(2)]
  have "rank_users arrange data = Inr (r, s)" using r(1) s(1) by (simp add: rank_users_Inr)
  moreover have "mset r = mset data" by (rule py_sorted_rev_mset[OF r(1) ord_r])
  moreover have "mset s = mset data" by (rule py_sorted_rev_mset[OF s(1) ord_s])
  moreover
  have "\<forall>k. filter (\<lambda>x. rating_key x = k) r = filter (\<lambda>x. rating_key x = k) data"
    using py_sorted_rev_same_key[OF r(1) ord_r] by blast
  moreover
  have "\<forall>k. filter (\<lambda>x. solved_key x = k) s = filter (\<lambda>x. solved_key x = k) data"
    using py_sorted_rev_same_key[OF s(1) ord_s] by blast
  moreover
  have "\<forall>k. filter (\<lambda>x. py_eq (rating_key x) k) r = filter (\<lambda>x. py_eq (rating_key x) k) data"
    using py_sorted_rev_equal_keys[OF r(1) assms(1)] by blast
  moreover
  have "\<forall>k. filter (\<lambda>x. py_eq (solved_key x) k) s = filter (\<lambda>x. py_eq (solved_key x) k) data"
    using py_sorted_rev_equal_keys[OF s(1) assms(2)] by blast
  ultimately show ?thesis using r(2) s(2) by blast
qed

text \<open>
  The batch of four: \<open>bob\<close>, with the integer 300, and \<open>dee\<close>, with the float 300.0, tie in
  rating and stay in this order at the top of the first view; \<open>ann\<close> and \<open>bob\<close> tie at 7
  solved problems and stay in this order in the second.
\<close>

theorem rank_users_stable_descending_witness:
  "sortable_keys rating_key demo_data \<and> sortable_keys solved_key demo_data
   \<and> rank_users as_given demo_data = Inr (demo_by_rating, demo_by_solved)
   \<and> mset demo_by_rating = mset demo_data \<and> mset demo_by_solved = mset demo_data
   \<and> sorted_wrt (\<lambda>x y. py_lt (rating_key x) (rating_key y) = Inr False) demo_by_rating
   \<and> sorted_wrt (\<lambda>x y. py_lt (solved_key x) (solved_key y) = Inr False) demo_by_solved
   \<and> filter (\<lambda>x. py_eq (rating_key x) (PInt 300)) demo_by_rating
      = [rec_of ''bob'' (PInt 300) (PInt 7), rec_of ''dee'' (PFloat (Finite 300)) (PInt 2)]
   \<and> filter (\<lambda>x. solved_key x = PInt 7) demo_by_solved
      = [rec_of ''ann'' (PInt 100) (PInt 7), rec_of ''bob'' (PInt 300) (PInt 7)]"
proof -
  from rank_users_stable_descending[OF demo_data_sortable, of as_given]
  obtain r s where rs: "rank_users as_given demo_data = Inr (r, s)"
    and m: "mset r = mset demo_data" "mset s = mset demo_data"
    and d: "sorted_wrt (\<lambda>x y. py_lt (rating_key x) (rating_key y) = Inr False) r"
      "sorted_wrt (\<lambda>x y. py_lt (solved_key x) (solved_key y) = Inr False) s"
    and e: "\<forall>k. filter (\<lambda>x. py_eq (rating_key x) k) r
              = filter (\<lambda>x. py_eq (rating_key x) k) demo_data"
    and k: "\<forall>k. filter (\<lambda>x. solved_key x = k) s = filter (\<lambda>x. solved_key x = k) demo_data"
    by blast
  from rs demo_data_ranked[of as_given] have r: "r = demo_by_rating" and s: "s = demo_by_solved"
    by simp_all
  have "filter (\<lambda>x. py_eq (rating_key x) (PInt 300)) demo_data
          = [rec_of ''bob'' (PInt 300) (PInt 7), rec_of ''dee'' (PFloat (Finite 300)) (PInt 2)]"
    and "filter (\<lambda>x. solved_key x = PInt 7) demo_data
          = [rec_of ''ann'' (PInt 100) (PInt 7), rec_of ''bob'' (PInt 300) (PInt 7)]"
    by (simp_all add: demo_data_def rec_of_def rating_key_def solved_key_def dict_get_def)
  with e k have "filter (\<lambda>x. py_eq (rating_key x) (PInt 300)) r
          = [rec_of ''bob'' (PInt 300) (PInt 7), rec_of ''dee'' (PFloat (Finite 300)) (PInt 2)]"
    and "filter (\<lambda>x. solved_key x = PInt 7) s
          = [rec_of ''ann'' (PInt 100) (PInt 7), rec_of ''bob'' (PInt 300) (PInt 7)]"
    by metis+
  with m d demo_data_sortable demo_data_ranked[of as_given] show ?thesis
    unfolding r s by blast
qed

text \<open>
  A batch that \<^verbatim>\<open>main\<close> builds and that has no ranked view: \<open>carol\<close>'s rating is 1500 and
  \<open>frank\<close>'s is the string \<open>N/A\<close>, and \<^verbatim>\<open>rank_users\<close> raises \<^verbatim>\<open>TypeError\<close>.
\<close>

theorem rank_users_mixed_no_view:
  "fetch_all demo_net [''carol'', ''frank''] = Inr ([carol_record, frank_record], [])
   \<and> rank_users as_given [carol_record, frank_record] = Inl TypeError"
  by (simp add: fetch_all_def submit_all_def carol_fetch frank_fetch rank_users_def py_sorted_def
      unordered_keys_def exn_bind_def rating_key_def solved_key_def dict_get_def
      frank_record_def carol_record_def)




text \<open>
  C9, over the store: \<^verbatim>\<open>rank_users\<close> leaves every list that existed before the call as it
  was, the list \<open>data\<close> among them, with the same records in the same order. When it
  returns, its two views are two new, distinct lists, neither of them \<open>data\<close>, and each
  holds what sorting \<open>data\<close> by its own field gives, whatever the other view is. When it
  raises, \<open>data\<close> is unchanged as well.
\<close>

theorem rank_users_store_frame:
  assumes "data < length h" and "rank_users_store arrange h data = (h', res)"
  shows "take (length h) h' = h \<and> h' ! data = h ! data
         \<and> (\<forall>r s. res = Inr (r, s) \<longrightarrow>
               r \<noteq> s \<and> r \<noteq> data \<and> s \<noteq> data \<and> r < length h' \<and> s < length h'
               \<and> py_sorted arrange rating_key True (h ! data) = Inr (h' ! r)
               \<and> py_sorted arrange solved_key True (h ! data) = Inr (h' ! s)
               \<and> rank_users arrange (h ! data) = Inr (h' ! r, h' ! s))
         \<and> (\<forall>e. res = Inl e \<longrightarrow> rank_users arrange (h ! data) = Inl e)"
  using assms
  by (auto simp: rank_users_store_def sorted_store_def rank_users_def exn_bind_def nth_append
      split: sum.splits)

theorem rank_users_store_frame_witness:
  "(0::nat) < length [demo_data]
   \<and> rank_users_store as_given [demo_data] 0
       = ([demo_data, demo_by_rating, demo_by_solved], Inr (1, 2))
   \<and> [demo_data, demo_by_rating, demo_by_solved] ! 0 = [demo_data] ! 0
   \<and> rank_users as_given ([demo_data] ! 0)
       = Inr ([demo_data, demo_by_rating, demo_by_solved] ! 1,
              [demo_data, demo_by_rating, demo_by_solved] ! 2)"
proof -
  have a: "(0::nat) < length [demo_data]" by simp
  have "py_sorted as_given rating_key True demo_data = Inr demo_by_rating"
    and "py_sorted as_given solved_key True demo_data = Inr demo_by_solved"
    using demo_data_ranked[of as_given] by (simp_all add: rank_users_Inr)
  then have b: "rank_users_store as_given [demo_data] 0
      = ([demo_data, demo_by_rating, demo_by_solved], Inr (1, 2))"
    by (simp add: rank_users_store_def sorted_store_def)
  from rank_users_store_frame[OF a b] a b show ?thesis by simp
qed

end
